theory Spec2Isabelle
  imports Main "HOL-Library.Sublist"
begin

section \<open>CoolRide Telegram bot: the conversation handlers of \<^verbatim>\<open>main.py\<close>\<close>

text \<open>
  The bot keeps one dictionary per user in the global \<^verbatim>\<open>user_sessions\<close>, walks the
  user through inline menus, geocodes place names with one HTTP request each and replies
  with a link to the external route application.

  Scope of the model.
  \<^item> A Python \<^verbatim>\<open>str\<close> is the list of its Unicode code points, each an integer.
    The fixed texts of the source are written \<open>ascii ''...''\<close>, and its emoji as their
    code points.
  \<^item> \<^verbatim>\<open>strip\<close> is modelled in full. \<^verbatim>\<open>lower\<close>, \<^verbatim>\<open>title\<close> and \<^verbatim>\<open>int\<close> are modelled in
    full on ASCII characters; what they do to a character outside ASCII is read from
    the interpreter's Unicode tables, which are parameters of the model.
  \<^item> Floating point is not modelled: the type of floats is a parameter \<open>'f\<close>, and
    \<^verbatim>\<open>float(...)\<close>, the truth value of a float and its formatting are parameters.
  \<^item> The network is a parameter: what each HTTP request does (raise, answer with
    something that is not JSON, answer with a JSON value).
  \<^item> The calls of the chat transport (\<^verbatim>\<open>reply_text\<close>, \<^verbatim>\<open>edit_message_text\<close>,
    \<^verbatim>\<open>answer\<close>) are recorded in order and are taken to succeed. Every update carries
    its user, and a message its text and a callback query its data.
  \<^item> \<^verbatim>\<open>help_command\<close> and \<^verbatim>\<open>main\<close> (the start of the process and the registration of the
    handlers) are not modelled; no property below depends on them.
\<close>

subsection \<open>Python strings\<close>

type_synonym ustr = "int list"

text \<open>A text of ASCII characters as a Python string.\<close>

definition ascii :: "string \<Rightarrow> ustr" where
  "ascii s = map of_char s"

text \<open>
  \<^verbatim>\<open>c.isspace()\<close>: the white space of Unicode, which \<^verbatim>\<open>strip\<close> removes. (The interpreter
  decides it by this list of code points.)
\<close>

definition isspace :: "int \<Rightarrow> bool" where
  "isspace c =
     ((0x09 \<le> c \<and> c \<le> 0x0D) \<or> (0x1C \<le> c \<and> c \<le> 0x20) \<or> c = 0x85 \<or> c = 0xA0 \<or>
      c = 0x1680 \<or> (0x2000 \<le> c \<and> c \<le> 0x200A) \<or> c = 0x2028 \<or> c = 0x2029 \<or>
      c = 0x202F \<or> c = 0x205F \<or> c = 0x3000)"

text \<open>\<^verbatim>\<open>s.strip()\<close>: leading and trailing white space removed.\<close>

definition strip :: "ustr \<Rightarrow> ustr" where
  "strip s = rev (dropWhile isspace (rev (dropWhile isspace s)))"

text \<open>
  \<^verbatim>\<open>s.replace(old, new)\<close> and \<^verbatim>\<open>s.split(sep)\<close> scan from the left and never look
  again at what a match consumed. Every call in the source passes a non-empty literal as
  \<open>old\<close> and \<open>sep\<close>.
\<close>

fun replace :: "ustr \<Rightarrow> ustr \<Rightarrow> ustr \<Rightarrow> ustr" where
  "replace old new [] = []"
| "replace old new (c # cs) =
     (if old \<noteq> [] \<and> prefix old (c # cs)
      then new @ replace old new (drop (length old - 1) cs)
      else c # replace old new cs)"

fun split_from :: "ustr \<Rightarrow> ustr \<Rightarrow> ustr \<Rightarrow> ustr list" where
  "split_from sep cur [] = [cur]"
| "split_from sep cur (c # cs) =
     (if sep \<noteq> [] \<and> prefix sep (c # cs)
      then cur # split_from sep [] (drop (length sep - 1) cs)
      else split_from sep (cur @ [c]) cs)"

definition split :: "ustr \<Rightarrow> ustr \<Rightarrow> ustr list" where
  "split s sep = split_from sep [] s"

text \<open>\<^verbatim>\<open>sep.join(xs)\<close>\<close>

fun join :: "ustr \<Rightarrow> ustr list \<Rightarrow> ustr" where
  "join sep [] = []"
| "join sep [x] = x"
| "join sep (x # y # ys) = x @ sep @ join sep (y # ys)"

text \<open>\<^verbatim>\<open>str(n)\<close> for a natural number, as the f-strings format list positions.\<close>

fun str_nat :: "nat \<Rightarrow> ustr" where
  "str_nat n =
     (if n < 10 then [48 + int n]
      else str_nat (n div 10) @ [48 + int (n mod 10)])"

datatype py_error =
    ValueError | IndexError | KeyError | TypeError | OverflowError
  | RequestException | JSONDecodeError

text \<open>\<^verbatim>\<open>xs[i]\<close> on a list: a negative index counts from the end.\<close>

definition list_getitem :: "'a list \<Rightarrow> int \<Rightarrow> py_error + 'a" where
  "list_getitem xs i =
     (if 0 \<le> i \<and> i < int (length xs) then Inr (xs ! nat i)
      else if i < 0 \<and> - i \<le> int (length xs) then Inr (xs ! nat (int (length xs) + i))
      else Inl IndexError)"

text \<open>Sequencing of steps that may raise: the first exception ends the computation.\<close>

definition and_then :: "py_error + 'a \<Rightarrow> ('a \<Rightarrow> py_error + 'b) \<Rightarrow> py_error + 'b" where
  "and_then r f = (case r of Inl e \<Rightarrow> Inl e | Inr v \<Rightarrow> f v)"

subsection \<open>Decoded JSON and the environment\<close>

text \<open>
  What \<^verbatim>\<open>resp.json()\<close> returns. An object holds the items of the decoded dictionary, whose
  keys are strings.
\<close>

datatype 'f json =
    JNull
  | JBool bool
  | JInt int
  | JFloat 'f
  | JStr ustr
  | JArr "'f json list"
  | JObj "(ustr \<times> 'f json) list"

text \<open>
  The environment of a run: the tables and primitives of the interpreter that are not
  modelled, and the configured base address of the route application.
  \<^item> \<open>unicode_lower c\<close> and \<open>unicode_title c\<close> are the full lower-case and title-case
    mappings of a character \<open>c\<close> outside ASCII (one to three characters);
    \<open>unicode_cased c\<close> says whether it is cased; \<open>unicode_final_sigma s i\<close> says whether
    the capital sigma at position \<open>i\<close> of \<open>s\<close> stands at the end of a word;
    \<open>unicode_decimal c\<close> is the value of \<open>c\<close> as a decimal digit, if it is one.
  \<^item> \<open>float_of_str\<close> and \<open>float_of_int\<close> are \<^verbatim>\<open>float(...)\<close> on a string and on an integer
    (\<open>None\<close> where it raises), \<open>float_nonzero\<close> is the truth value of a float, and
    \<open>float_str\<close> is what an f-string prints for it.
\<close>

record 'f env =
  unicode_lower :: "int \<Rightarrow> ustr"
  unicode_title :: "int \<Rightarrow> ustr"
  unicode_cased :: "int \<Rightarrow> bool"
  unicode_final_sigma :: "ustr \<Rightarrow> nat \<Rightarrow> bool"
  unicode_decimal :: "int \<Rightarrow> int option"
  float_of_str :: "ustr \<Rightarrow> 'f option"
  float_of_int :: "int \<Rightarrow> 'f option"
  float_nonzero :: "'f \<Rightarrow> bool"
  float_str :: "'f \<Rightarrow> ustr"
  APP_URL :: ustr

text \<open>
  \<^verbatim>\<open>s.lower()\<close>, character by character: an ASCII capital becomes its small letter and
  any other ASCII character stays; a capital sigma becomes the final or the medial small
  sigma; any other character is mapped by the table.
\<close>

definition lower_at :: "'f env \<Rightarrow> ustr \<Rightarrow> nat \<Rightarrow> ustr" where
  "lower_at E s i =
     (let c = s ! i in
      if c < 128 then [if 65 \<le> c \<and> c \<le> 90 then c + 32 else c]
      else if c = 0x3A3 then [if unicode_final_sigma E s i then 0x3C2 else 0x3C3]
      else unicode_lower E c)"

definition lower :: "'f env \<Rightarrow> ustr \<Rightarrow> ustr" where
  "lower E s = concat (map (lower_at E s) [0..<length s])"

text \<open>
  \<^verbatim>\<open>s.title()\<close>: a character that follows a cased one is put in lower case, any other
  in title case.
\<close>

definition title_at :: "'f env \<Rightarrow> int \<Rightarrow> ustr" where
  "title_at E c =
     (if c < 128 then [if 97 \<le> c \<and> c \<le> 122 then c - 32 else c] else unicode_title E c)"

definition cased :: "'f env \<Rightarrow> int \<Rightarrow> bool" where
  "cased E c =
     (if c < 128 then (65 \<le> c \<and> c \<le> 90) \<or> (97 \<le> c \<and> c \<le> 122) else unicode_cased E c)"

definition title_step :: "'f env \<Rightarrow> ustr \<Rightarrow> ustr \<times> bool \<Rightarrow> nat \<Rightarrow> ustr \<times> bool" where
  "title_step E s acc i =
     (fst acc @ (if snd acc then lower_at E s i else title_at E (s ! i)), cased E (s ! i))"

definition title :: "'f env \<Rightarrow> ustr \<Rightarrow> ustr" where
  "title E s = fst (foldl (title_step E s) ([], False) [0..<length s])"

text \<open>
  \<^verbatim>\<open>int(s)\<close>. The interpreter first rewrites the string: a character below 127 stays, any
  other white space becomes a space, any other decimal digit becomes its ASCII digit, and
  anything else becomes a question mark. It then parses decimal text: the white space of
  C (tab to carriage return, and the space) is dropped at both ends, one sign is allowed,
  and the digits may be grouped by single underscores. Anything else raises
  \<^verbatim>\<open>ValueError\<close>. (The interpreter's limit on the number of digits is far above the 64
  bytes a callback key can hold.)
\<close>

definition to_ascii :: "'f env \<Rightarrow> int \<Rightarrow> int" where
  "to_ascii E c =
     (if c < 127 then c
      else if isspace c then 32
      else (case unicode_decimal E c of
              None \<Rightarrow> 63
            | Some d \<Rightarrow> if 0 \<le> d \<and> d < 10 then 48 + d else 63))"

definition c_isspace :: "int \<Rightarrow> bool" where
  "c_isspace c = ((9 \<le> c \<and> c \<le> 13) \<or> c = 32)"

definition isdigit :: "int \<Rightarrow> bool" where
  "isdigit c = (48 \<le> c \<and> c \<le> 57)"

definition decimal_value :: "ustr \<Rightarrow> int" where
  "decimal_value ds = foldl (\<lambda>acc c. 10 * acc + (c - 48)) 0 ds"

definition py_int :: "'f env \<Rightarrow> ustr \<Rightarrow> py_error + int" where
  "py_int E s =
     (let t = rev (dropWhile c_isspace (rev (dropWhile c_isspace (map (to_ascii E) s))));
          neg = (t \<noteq> [] \<and> hd t = 45);
          body = (if t \<noteq> [] \<and> (hd t = 45 \<or> hd t = 43) then tl t else t);
          groups = split body [95]
      in if list_all (\<lambda>g. g \<noteq> [] \<and> list_all isdigit g) groups
         then Inr ((if neg then - 1 else 1) * decimal_value (concat groups))
         else Inl ValueError)"

text \<open>The truth value of a decoded JSON value, as \<^verbatim>\<open>if data:\<close> tests it.\<close>

fun truthy :: "'f env \<Rightarrow> 'f json \<Rightarrow> bool" where
  "truthy E JNull = False"
| "truthy E (JBool b) = b"
| "truthy E (JInt i) = (i \<noteq> 0)"
| "truthy E (JFloat x) = float_nonzero E x"
| "truthy E (JStr s) = (s \<noteq> [])"
| "truthy E (JArr xs) = (xs \<noteq> [])"
| "truthy E (JObj kvs) = (kvs \<noteq> [])"

text \<open>\<^verbatim>\<open>float(v)\<close>\<close>

fun py_float :: "'f env \<Rightarrow> 'f json \<Rightarrow> py_error + 'f" where
  "py_float E (JFloat x) = Inr x"
| "py_float E (JInt i) =
     (case float_of_int E i of None \<Rightarrow> Inl OverflowError | Some x \<Rightarrow> Inr x)"
| "py_float E (JBool b) =
     (case float_of_int E (if b then 1 else 0) of None \<Rightarrow> Inl OverflowError | Some x \<Rightarrow> Inr x)"
| "py_float E (JStr s) =
     (case float_of_str E s of None \<Rightarrow> Inl ValueError | Some x \<Rightarrow> Inr x)"
| "py_float E JNull = Inl TypeError"
| "py_float E (JArr xs) = Inl TypeError"
| "py_float E (JObj kvs) = Inl TypeError"

text \<open>\<^verbatim>\<open>v[i]\<close> with an integer \<open>i\<close>, and \<^verbatim>\<open>v[k]\<close> with a string \<open>k\<close>.\<close>

fun getitem_int :: "'f json \<Rightarrow> int \<Rightarrow> py_error + 'f json" where
  "getitem_int (JArr xs) i = list_getitem xs i"
| "getitem_int (JStr s) i = and_then (list_getitem s i) (\<lambda>c. Inr (JStr [c]))"
| "getitem_int (JObj kvs) i = Inl KeyError"
| "getitem_int JNull i = Inl TypeError"
| "getitem_int (JBool b) i = Inl TypeError"
| "getitem_int (JInt n) i = Inl TypeError"
| "getitem_int (JFloat x) i = Inl TypeError"

fun getitem_str :: "'f json \<Rightarrow> ustr \<Rightarrow> py_error + 'f json" where
  "getitem_str (JObj kvs) k = (case map_of kvs k of None \<Rightarrow> Inl KeyError | Some v \<Rightarrow> Inr v)"
| "getitem_str JNull k = Inl TypeError"
| "getitem_str (JBool b) k = Inl TypeError"
| "getitem_str (JInt n) k = Inl TypeError"
| "getitem_str (JFloat x) k = Inl TypeError"
| "getitem_str (JStr s) k = Inl TypeError"
| "getitem_str (JArr xs) k = Inl TypeError"

subsection \<open>Sessions, the transport and the network\<close>

record place =
  name :: ustr
  reason :: ustr

text \<open>
  A session is a dictionary that only ever holds these five keys; a key that is absent is
  \<open>None\<close>.
\<close>

record session =
  mode :: "ustr option"
  mood :: "ustr option"
  recommendations :: "place list option"
  destination :: "ustr option"
  awaiting_start :: "bool option"

definition empty_session :: session where
  "empty_session =
     \<lparr>mode = None, mood = None, recommendations = None, destination = None,
      awaiting_start = None\<rparr>"

text \<open>An inline keyboard: rows of buttons, each a label and its callback key.\<close>

type_synonym keyboard = "(ustr \<times> ustr) list list"

text \<open>
  What a handler does to the outside, in order: an HTTP GET of an address, the
  acknowledgement of a callback query, a new message, and the replacement of the message
  the pressed menu belongs to. A message carries its text, its keyboard and its parse
  mode.
\<close>

datatype effect =
    Http_get ustr
  | Answer
  | Reply_text ustr "keyboard option" "ustr option"
  | Edit_message_text ustr "keyboard option" "ustr option"

record world =
  user_sessions :: "ustr \<rightharpoonup> session"
  effects :: "effect list"

definition emit :: "effect \<Rightarrow> world \<Rightarrow> world" where
  "emit e w = w\<lparr>effects := effects w @ [e]\<rparr>"

text \<open>What one HTTP request does: \<^verbatim>\<open>requests.get\<close> raises (no connection, timeout),
  \<^verbatim>\<open>resp.json()\<close> raises (the body is not JSON), or the body decodes to a value.\<close>

datatype 'f http_outcome = Get_raises | Json_raises | Json_ok "'f json"

text \<open>\<^verbatim>\<open>effective_user\<close>: \<open>user_id\<close> is \<^verbatim>\<open>str(update.effective_user.id)\<close>.\<close>

record tg_user =
  user_id :: ustr
  username :: "ustr option"
  first_name :: "ustr option"

subsection \<open>Fixed data\<close>

definition nature_places :: "place list" where
  "nature_places =
     [\<lparr>name = ascii ''Botanic Gardens'', reason = ascii ''UNESCO site with lush greenery''\<rparr>,
      \<lparr>name = ascii ''East Coast Park'', reason = ascii ''Beachside cycling with sea breeze''\<rparr>,
      \<lparr>name = ascii ''Punggol Waterway'', reason = ascii ''Peaceful waterfront trail''\<rparr>]"

definition food_places :: "place list" where
  "food_places =
     [\<lparr>name = ascii ''Tiong Bahru'', reason = ascii ''Hip cafes in heritage shophouses''\<rparr>,
      \<lparr>name = ascii ''Joo Chiat'', reason = ascii ''Peranakan food and colorful streets''\<rparr>,
      \<lparr>name = ascii ''Kampong Glam'', reason = ascii ''Middle Eastern eats near Haji Lane''\<rparr>]"

definition views_places :: "place list" where
  "views_places =
     [\<lparr>name = ascii ''Marina Bay Sands'', reason = ascii ''Iconic skyline views''\<rparr>,
      \<lparr>name = ascii ''Gardens by the Bay'', reason = ascii ''Stunning Supertrees''\<rparr>,
      \<lparr>name = ascii ''Henderson Waves'', reason = ascii ''Highest pedestrian bridge''\<rparr>]"

definition FALLBACK_PLACES :: "ustr \<rightharpoonup> place list" where
  "FALLBACK_PLACES =
     map_of [(ascii ''nature'', nature_places), (ascii ''food'', food_places),
             (ascii ''views'', views_places)]"

definition nl :: ustr where
  "nl = [0x0A]"

definition dquote :: ustr where
  "dquote = [0x22]"

definition markdown :: "ustr option" where
  "markdown = Some (ascii ''Markdown'')"

text \<open>The emoji of the messages, by their code points.\<close>

definition e_map :: ustr where
  "e_map = [0x1F5FA, 0xFE0F]"

definition e_sparkles :: ustr where
  "e_sparkles = [0x2728]"

definition e_sun :: ustr where
  "e_sun = [0x2600, 0xFE0F]"

definition e_herb :: ustr where
  "e_herb = [0x1F33F]"

definition e_noodles :: ustr where
  "e_noodles = [0x1F35C]"

definition e_sunset :: ustr where
  "e_sunset = [0x1F307]"

definition e_cyclist :: ustr where
  "e_cyclist = [0x1F6B4]"

definition e_cyclist_man :: ustr where
  "e_cyclist_man = [0x1F6B4, 0x200D, 0x2642, 0xFE0F]"

definition e_cyclist_woman :: ustr where
  "e_cyclist_woman = [0x1F6B4, 0x200D, 0x2640, 0xFE0F]"

definition e_pin :: ustr where
  "e_pin = [0x1F4CD]"

definition e_target :: ustr where
  "e_target = [0x1F3AF]"

definition e_arrow :: ustr where
  "e_arrow = [0x2192]"

definition e_point :: ustr where
  "e_point = [0x1F449]"

definition e_confused :: ustr where
  "e_confused = [0x1F615]"

subsection \<open>The geocoder\<close>

text \<open>The address of line 43: the place name, then the fixed qualifier.\<close>

definition geocode_url :: "ustr \<Rightarrow> ustr" where
  "geocode_url place_name =
     ascii ''https://nominatim.openstreetmap.org/search?q='' @ place_name @
     ascii '', Singapore&format=json&limit=1''"

text \<open>
  The body of the \<^verbatim>\<open>try\<close> block of \<^verbatim>\<open>geocode_location\<close>: \<open>Inl\<close> where a statement
  raises, \<open>Inr (Some c)\<close> where the \<^verbatim>\<open>return\<close> inside is reached, \<open>Inr None\<close> where the
  block ends without returning. \<open>get\<close> is what the request does.
\<close>

definition geocode_try ::
  "'f env \<Rightarrow> (ustr \<Rightarrow> 'f http_outcome) \<Rightarrow> ustr \<Rightarrow> py_error + ('f \<times> 'f) option" where
  "geocode_try E get place_name =
     (case get (geocode_url place_name) of
        Get_raises \<Rightarrow> Inl RequestException
      | Json_raises \<Rightarrow> Inl JSONDecodeError
      | Json_ok data \<Rightarrow>
          if truthy E data
          then and_then (getitem_int data 0) (\<lambda>r.
               and_then (getitem_str r (ascii ''lat'')) (\<lambda>a.
               and_then (py_float E a) (\<lambda>lat.
               and_then (getitem_int data 0) (\<lambda>r'.
               and_then (getitem_str r' (ascii ''lon'')) (\<lambda>b.
               and_then (py_float E b) (\<lambda>lon.
               Inr (Some (lat, lon))))))))
          else Inr None)"

text \<open>
  \<^verbatim>\<open>geocode_location\<close>: the bare \<^verbatim>\<open>except: pass\<close> swallows whatever the body raised, and
  the function then returns \<^verbatim>\<open>None\<close>.
\<close>

definition geocode_location ::
  "'f env \<Rightarrow> (ustr \<Rightarrow> 'f http_outcome) \<Rightarrow> ustr \<Rightarrow> world \<Rightarrow> ('f \<times> 'f) option \<times> world" where
  "geocode_location E get place_name w =
     ((case geocode_try E get place_name of
         Inl e \<Rightarrow> None
       | Inr None \<Rightarrow> None
       | Inr (Some c) \<Rightarrow> Some c),
      emit (Http_get (geocode_url place_name)) w)"

subsection \<open>The handlers\<close>

text \<open>\<^verbatim>\<open>user_sessions.get(user_id, {})\<close> and \<^verbatim>\<open>user_sessions[user_id] = s\<close>\<close>

definition get_session :: "world \<Rightarrow> ustr \<Rightarrow> session" where
  "get_session w uid = (case user_sessions w uid of None \<Rightarrow> empty_session | Some s \<Rightarrow> s)"

definition set_session :: "ustr \<Rightarrow> session \<Rightarrow> world \<Rightarrow> world" where
  "set_session uid s w = w\<lparr>user_sessions := (user_sessions w)(uid \<mapsto> s)\<rparr>"

text \<open>\<^verbatim>\<open>a or b\<close> on an optional string: absent and empty are both false.\<close>

definition or_else :: "ustr option \<Rightarrow> ustr \<Rightarrow> ustr" where
  "or_else a b = (case a of None \<Rightarrow> b | Some s \<Rightarrow> if s = [] then b else s)"

definition mode_keyboard :: keyboard where
  "mode_keyboard =
     [[(e_map @ ascii '' I know where I'm going'', ascii ''mode_direct'')],
      [(e_sparkles @ ascii '' Recommend me a place'', ascii ''mode_recommend'')]]"

text \<open>The text of lines 63 to 65.\<close>

definition welcome_text :: "tg_user \<Rightarrow> ustr" where
  "welcome_text u =
     e_sun @ ascii '' *Welcome to CoolRide, @'' @
     or_else (username u) (or_else (first_name u) (ascii ''user_'' @ user_id u)) @
     ascii ''!*'' @ nl @ nl @
     ascii ''I help you find cool, shaded cycling routes in Singapore.'' @ nl @ nl @
     ascii ''What would you like to do?''"

definition start_command :: "tg_user \<Rightarrow> world \<Rightarrow> world" where
  "start_command u w =
     (let uid = user_id u;
          w1 = set_session uid empty_session w
      in emit (Reply_text (welcome_text u) (Some mode_keyboard) markdown) w1)"

definition mood_keyboard :: keyboard where
  "mood_keyboard =
     [[(e_herb @ ascii '' Nature'', ascii ''mood_nature''),
       (e_noodles @ ascii '' Food'', ascii ''mood_food'')],
      [(e_sunset @ ascii '' Views'', ascii ''mood_views'')]]"

definition dist_keyboard :: keyboard where
  "dist_keyboard =
     [[(e_cyclist @ ascii '' 10-20 min'', ascii ''dist_short'')],
      [(e_cyclist_man @ ascii '' 20-40 min'', ascii ''dist_medium'')],
      [(e_cyclist_woman @ ascii '' 40+ min'', ascii ''dist_long'')]]"

text \<open>The keyboard and the text of lines 119 and 120, from the recommendations.\<close>

definition place_keyboard :: "place list \<Rightarrow> keyboard" where
  "place_keyboard recs =
     map (\<lambda>(i, r). [(e_pin @ ascii '' '' @ name r, ascii ''place_'' @ str_nat i)])
       (enumerate 0 recs)"

definition picks_text :: "place list \<Rightarrow> ustr" where
  "picks_text recs =
     e_target @ ascii '' *Top picks:*'' @ nl @ nl @
     join nl (map (\<lambda>(i, r). ascii ''*'' @ str_nat (i + 1) @ ascii ''. '' @ name r @
                               ascii ''*'' @ nl @ ascii ''_'' @ reason r @ ascii ''_'' @ nl)
                (enumerate 0 recs))"

text \<open>The texts of lines 111 and 130.\<close>

definition how_far_text :: "'f env \<Rightarrow> ustr \<Rightarrow> ustr" where
  "how_far_text E md = ascii ''*'' @ title E md @ ascii ''* - nice!'' @ nl @ nl @ ascii ''*How far?*''"

definition destination_text :: "ustr \<Rightarrow> ustr" where
  "destination_text place_name =
     e_target @ ascii '' *Destination: '' @ place_name @ ascii ''*'' @ nl @ nl @
     ascii ''Where are you starting from?''"

text \<open>
  \<^verbatim>\<open>handle_callback\<close>: the result is the exception the handler ends with, if any, and
  the world at that moment.
\<close>

definition handle_callback ::
  "'f env \<Rightarrow> tg_user \<Rightarrow> ustr \<Rightarrow> world \<Rightarrow> py_error option \<times> world" where
  "handle_callback E u data w =
     (let uid = user_id u;
          w1 = emit Answer w;
          w2 = (if user_sessions w1 uid = None then set_session uid empty_session w1 else w1)
      in
      if data = ascii ''mode_direct'' then
        (None,
         emit (Edit_message_text
                 (e_map @ ascii '' Tell me where you want to cycle!'' @ nl @ nl @
                  ascii ''Example: '' @ dquote @ ascii ''From Marina Bay to East Coast Park'' @
                  dquote)
                 None None)
           (set_session uid (empty_session\<lparr>mode := Some (ascii ''direct'')\<rparr>) w2))
      else if data = ascii ''mode_recommend'' then
        (None,
         emit (Edit_message_text (e_sparkles @ ascii '' *What are you in the mood for?*'')
                 (Some mood_keyboard) markdown) w2)
      else if prefix (ascii ''mood_'') data then
        (let md = replace (ascii ''mood_'') [] data in
         case user_sessions w2 uid of
           None \<Rightarrow> (Some KeyError, w2)
         | Some s \<Rightarrow>
             (None,
              emit (Edit_message_text (how_far_text E md) (Some dist_keyboard) markdown)
                (set_session uid (s\<lparr>mood := Some md\<rparr>) w2)))
      else if prefix (ascii ''dist_'') data then
        (let md = (case mood (get_session w2 uid) of None \<Rightarrow> ascii ''nature'' | Some m \<Rightarrow> m) in
         case FALLBACK_PLACES (ascii ''nature'') of
           None \<Rightarrow> (Some KeyError, w2)
         | Some dflt \<Rightarrow>
             (let recs = (case FALLBACK_PLACES md of None \<Rightarrow> dflt | Some r \<Rightarrow> r) in
              case user_sessions w2 uid of
                None \<Rightarrow> (Some KeyError, w2)
              | Some s \<Rightarrow>
                  (None,
                   emit (Edit_message_text (picks_text recs) (Some (place_keyboard recs)) markdown)
                     (set_session uid (s\<lparr>recommendations := Some recs\<rparr>) w2))))
      else if prefix (ascii ''place_'') data then
        (case py_int E (replace (ascii ''place_'') [] data) of
           Inl e \<Rightarrow> (Some e, w2)
         | Inr idx \<Rightarrow>
             (let recs = (case recommendations (get_session w2 uid) of
                            None \<Rightarrow> [] | Some r \<Rightarrow> r)
              in if idx < int (length recs) then
                   (case list_getitem recs idx of
                      Inl e \<Rightarrow> (Some e, w2)
                    | Inr r \<Rightarrow>
                        (case user_sessions w2 uid of
                           None \<Rightarrow> (Some KeyError, w2)
                         | Some s \<Rightarrow>
                             (None,
                              emit (Edit_message_text (destination_text (name r)) None markdown)
                                (set_session uid
                                   (s\<lparr>destination := Some (name r),
                                      awaiting_start := Some True\<rparr>) w2))))
                 else (None, w2)))
      else (None, w2))"

definition hint :: effect where
  "hint = Reply_text (ascii ''Try /start to plan a route!'') None None"

definition finding :: effect where
  "finding = Reply_text (e_pin @ ascii '' Finding locations...'') None None"

definition retry :: effect where
  "retry = Reply_text (e_confused @ ascii '' Couldn't find location. Try again.'') None None"

text \<open>The greeting words of line 139.\<close>

definition greetings :: "ustr list" where
  "greetings = [ascii ''hi'', ascii ''hello'', ascii ''hey'', ascii ''start'']"

text \<open>
  The address of lines 151 and 173 (the two f-strings are the same), and the message of
  lines 153 and 175 around it.
\<close>

definition route_url :: "'f env \<Rightarrow> 'f \<times> 'f \<Rightarrow> 'f \<times> 'f \<Rightarrow> ustr \<Rightarrow> ustr" where
  "route_url E start_coords end_coords uid =
     APP_URL E @ ascii ''?start='' @ float_str E (fst start_coords) @ ascii '','' @
     float_str E (snd start_coords) @ ascii ''&end='' @ float_str E (fst end_coords) @
     ascii '','' @ float_str E (snd end_coords) @ ascii ''&tg='' @ uid"

definition route_ready :: "ustr \<Rightarrow> ustr \<Rightarrow> ustr \<Rightarrow> effect" where
  "route_ready origin dest url =
     Reply_text
       (e_map @ ascii '' *Route ready!*'' @ nl @ nl @ e_pin @ ascii '' '' @ origin @
        ascii '' '' @ e_arrow @ ascii '' '' @ dest @ nl @ nl @ e_point @
        ascii '' [Open map]('' @ url @ ascii '')'')
       None markdown"

text \<open>
  \<^verbatim>\<open>handle_message\<close>. \<open>http i\<close> is what the \<open>i\<close>-th request made while this message is
  handled does, so that two requests for the same address may differ.
\<close>

definition handle_message ::
  "'f env \<Rightarrow> (nat \<Rightarrow> ustr \<Rightarrow> 'f http_outcome) \<Rightarrow> tg_user \<Rightarrow> ustr \<Rightarrow> world \<Rightarrow> world" where
  "handle_message E http u text w =
     (let uid = user_id u;
          session = get_session w uid
      in
      if strip (lower E text) \<in> set greetings then start_command u w
      else if awaiting_start session = Some True then
        (let dest = (case destination session of None \<Rightarrow> [] | Some d \<Rightarrow> d);
             w1 = emit finding w;
             (start_coords, w2) = geocode_location E (http 0) text w1;
             (end_coords, w3) = geocode_location E (http 1) dest w2
         in case (start_coords, end_coords) of
              (Some s, Some e) \<Rightarrow>
                set_session uid empty_session
                  (emit (route_ready text dest (route_url E s e uid)) w3)
            | _ \<Rightarrow> emit retry w3)
      else if sublist (ascii ''from'') (lower E text) \<and> sublist (ascii ''to'') (lower E text) then
        (let parts = split (lower E text) (ascii ''to'');
             start = strip (replace (ascii ''from'') [] (parts ! 0));
             end' = (if 1 < length parts then strip (parts ! 1) else [])
         in if start \<noteq> [] \<and> end' \<noteq> [] then
              (let w1 = emit finding w;
                   (start_coords, w2) = geocode_location E (http 0) start w1;
                   (end_coords, w3) = geocode_location E (http 1) end' w2
               in case (start_coords, end_coords) of
                    (Some s, Some e) \<Rightarrow> emit (route_ready start end' (route_url E s e uid)) w3
                  | _ \<Rightarrow> emit hint w3)
            else emit hint w)
      else emit hint w)"

subsection \<open>Notions the properties are stated with\<close>

text \<open>
  What \<^verbatim>\<open>geocode_location\<close> returns for a place name when its request behaves as \<open>get\<close>
  says. (The result does not depend on the world; see \<open>geocode_location_geocoded\<close>.)
\<close>

definition geocoded :: "'f env \<Rightarrow> (ustr \<Rightarrow> 'f http_outcome) \<Rightarrow> ustr \<Rightarrow> ('f \<times> 'f) option" where
  "geocoded E get place_name =
     fst (geocode_location E get place_name \<lparr>user_sessions = Map.empty, effects = []\<rparr>)"

text \<open>
  The contract of the geocoder in the specification's words, for comparison with the
  code: the latitude and longitude of the first result when the request succeeds, and
  absent on any failure (the request raises, the body is not JSON, the result list is
  empty, or the answer does not have the shape of a result list).
\<close>

definition resolve_spec :: "'f env \<Rightarrow> 'f http_outcome \<Rightarrow> ('f \<times> 'f) option" where
  "resolve_spec E out =
     (case out of
        Json_ok (JArr (JObj kvs # rest)) \<Rightarrow>
          (case (map_of kvs (ascii ''lat''), map_of kvs (ascii ''lon'')) of
             (Some a, Some b) \<Rightarrow>
               (case (py_float E a, py_float E b) of
                  (Inr lat, Inr lon) \<Rightarrow> Some (lat, lon)
                | _ \<Rightarrow> None)
           | _ \<Rightarrow> None)
      | _ \<Rightarrow> None)"

text \<open>\<^verbatim>\<open>session.get("destination", "")\<close> for the session of a user.\<close>

definition stored_destination :: "world \<Rightarrow> ustr \<Rightarrow> ustr" where
  "stored_destination w uid =
     (case destination (get_session w uid) of None \<Rightarrow> [] | Some d \<Rightarrow> d)"

text \<open>
  The origin and the destination that lines 162 to 167 read from a free text, \<open>None\<close>
  where the handler goes on to the hint instead.
\<close>

definition direct_route :: "'f env \<Rightarrow> ustr \<Rightarrow> (ustr \<times> ustr) option" where
  "direct_route E text =
     (if sublist (ascii ''from'') (lower E text) \<and> sublist (ascii ''to'') (lower E text) then
        (let parts = split (lower E text) (ascii ''to'');
             start = strip (replace (ascii ''from'') [] (parts ! 0));
             end' = (if 1 < length parts then strip (parts ! 1) else [])
         in if start \<noteq> [] \<and> end' \<noteq> [] then Some (start, end') else None)
      else None)"

text \<open>The list of places the specification assigns to a recorded mood.\<close>

definition places_for :: "ustr option \<Rightarrow> place list" where
  "places_for m =
     (if m = Some (ascii ''food'') then food_places
      else if m = Some (ascii ''views'') then views_places
      else nature_places)"

text \<open>The number of positions of a text at which \<open>sub\<close> occurs.\<close>

fun occurrences :: "ustr \<Rightarrow> ustr \<Rightarrow> nat" where
  "occurrences sub [] = 0"
| "occurrences sub (c # cs) = (if prefix sub (c # cs) then 1 else 0) + occurrences sub cs"

subsection \<open>A concrete run\<close>

text \<open>
  The examples below run the handlers in an environment with four floats, each named by
  the text the interpreter prints for it (\<^verbatim>\<open>float("1.3048")\<close> prints as \<^verbatim>\<open>1.3048\<close>); no
  other conversion occurs in them. Its Unicode tables leave every character outside
  ASCII as it is and uncased: the texts of the examples are ASCII, on which the tables
  are not consulted, but for two spaces outside ASCII (U+2003 and U+00A0), which the
  interpreter leaves as they are too. The first request of a handler is answered with
  one result at 1.3048, 103.8318 and the second with one result at 1.2863, 103.8273.
\<close>

definition example_floats :: "ustr list" where
  "example_floats = [ascii ''1.3048'', ascii ''103.8318'', ascii ''1.2863'', ascii ''103.8273'']"

definition example_env :: "ustr env" where
  "example_env =
     \<lparr>unicode_lower = (\<lambda>c. [c]),
      unicode_title = (\<lambda>c. [c]),
      unicode_cased = (\<lambda>c. False),
      unicode_final_sigma = (\<lambda>s i. False),
      unicode_decimal = (\<lambda>c. None),
      float_of_str = (\<lambda>s. if s \<in> set example_floats then Some s else None),
      float_of_int = (\<lambda>i. None),
      float_nonzero = (\<lambda>x. True),
      float_str = (\<lambda>x. x),
      APP_URL = ascii ''https://thermal-optimizers-coolride-engine.hf.space''\<rparr>"

definition found :: "string \<Rightarrow> string \<Rightarrow> ustr http_outcome" where
  "found la lo =
     Json_ok (JArr [JObj [(ascii ''lat'', JStr (ascii la)), (ascii ''lon'', JStr (ascii lo))]])"

definition example_http :: "nat \<Rightarrow> ustr \<Rightarrow> ustr http_outcome" where
  "example_http i url = (if i = 0 then found ''1.3048'' ''103.8318'' else found ''1.2863'' ''103.8273'')"

definition alice :: tg_user where
  "alice =
     \<lparr>user_id = ascii ''42'', username = Some (ascii ''alice''),
      first_name = Some (ascii ''Alice'')\<rparr>"

definition fresh :: world where
  "fresh = \<lparr>user_sessions = Map.empty, effects = []\<rparr>"

text \<open>Alice has picked food and then Tiong Bahru, and is asked where she starts.\<close>

definition awaiting_session :: session where
  "awaiting_session =
     \<lparr>mode = None, mood = Some (ascii ''food''), recommendations = Some food_places,
      destination = Some (ascii ''Tiong Bahru''), awaiting_start = Some True\<rparr>"

definition awaiting_world :: world where
  "awaiting_world = \<lparr>user_sessions = [ascii ''42'' \<mapsto> awaiting_session], effects = []\<rparr>"

text \<open>Alice has pressed "I know where I'm going".\<close>

definition direct_world :: world where
  "direct_world =
     \<lparr>user_sessions = [ascii ''42'' \<mapsto> empty_session\<lparr>mode := Some (ascii ''direct'')\<rparr>],
      effects = []\<rparr>"

text \<open>Alice has picked food and a distance, and sees the three food places.\<close>

definition places_world :: world where
  "places_world =
     \<lparr>user_sessions =
        [ascii ''42'' \<mapsto>
           empty_session\<lparr>mood := Some (ascii ''food''), recommendations := Some food_places\<rparr>],
      effects = []\<rparr>"

section \<open>Properties\<close>

subsection \<open>The world record and the fixed table\<close>

lemma ascii_Nil [simp]: "ascii [] = []"
  by (simp add: ascii_def)

lemma ascii_Cons [simp]: "ascii (c # s) = of_char c # ascii s"
  by (simp add: ascii_def)

lemma effects_emit [simp]: "effects (emit e w) = effects w @ [e]"
  by (simp add: emit_def)

lemma user_sessions_emit [simp]: "user_sessions (emit e w) = user_sessions w"
  by (simp add: emit_def)

lemma effects_set_session [simp]: "effects (set_session uid s w) = effects w"
  by (simp add: set_session_def)

lemma user_sessions_set_session [simp]:
  "user_sessions (set_session uid s w) = (user_sessions w)(uid \<mapsto> s)"
  by (simp add: set_session_def)

lemma get_session_emit [simp]: "get_session (emit e w) uid = get_session w uid"
  by (simp add: get_session_def)

lemma get_session_set_session [simp]: "get_session (set_session uid s w) uid = s"
  by (simp add: get_session_def)

lemma FALLBACK_PLACES_simps:
  "FALLBACK_PLACES (ascii ''nature'') = Some nature_places"
  "FALLBACK_PLACES (ascii ''food'') = Some food_places"
  "FALLBACK_PLACES (ascii ''views'') = Some views_places"
  by (simp_all add: FALLBACK_PLACES_def)

lemma FALLBACK_PLACES_other:
  "m \<noteq> ascii ''nature'' \<Longrightarrow> m \<noteq> ascii ''food'' \<Longrightarrow> m \<noteq> ascii ''views'' \<Longrightarrow>
   FALLBACK_PLACES m = None"
  by (simp add: FALLBACK_PLACES_def)

lemma FALLBACK_PLACES_lookup:
  "(case FALLBACK_PLACES (case m of None \<Rightarrow> ascii ''nature'' | Some x \<Rightarrow> x) of
      None \<Rightarrow> nature_places | Some r \<Rightarrow> r) = places_for m"
proof (cases m)
  case None
  then show ?thesis by (simp add: places_for_def FALLBACK_PLACES_simps del: ascii_Cons)
next
  case (Some x)
  show ?thesis
  proof (cases "x = ascii ''nature'' \<or> x = ascii ''food'' \<or> x = ascii ''views''")
    case True
    then show ?thesis
      using Some by (auto simp: places_for_def FALLBACK_PLACES_def)
  next
    case False
    then show ?thesis
      using Some by (simp add: places_for_def FALLBACK_PLACES_other del: ascii_Cons)
  qed
qed

subsection \<open>The distance selection\<close>

lemma handle_callback_dist:
  "handle_callback E u (ascii ''dist_'' @ d) w =
     (None,
      \<lparr>user_sessions = (user_sessions w)(user_id u \<mapsto>
          (get_session w (user_id u))
            \<lparr>recommendations := Some (places_for (mood (get_session w (user_id u))))\<rparr>),
       effects = effects w @
         [Answer,
          Edit_message_text (picks_text (places_for (mood (get_session w (user_id u)))))
            (Some (place_keyboard (places_for (mood (get_session w (user_id u)))))) markdown]\<rparr>)"
proof -
  have nat: "FALLBACK_PLACES (ascii ''nature'') = Some nature_places"
    by (rule FALLBACK_PLACES_simps)
  have branch: "ascii ''dist_'' @ d \<noteq> ascii ''mode_direct''"
    "ascii ''dist_'' @ d \<noteq> ascii ''mode_recommend''"
    "\<not> prefix (ascii ''mood_'') (ascii ''dist_'' @ d)"
    "prefix (ascii ''dist_'') (ascii ''dist_'' @ d)"
    by simp_all
  show ?thesis
  proof (cases "user_sessions w (user_id u)")
    case None
    then have g: "get_session w (user_id u) = empty_session"
      by (simp add: get_session_def)
    from None show ?thesis
      using FALLBACK_PLACES_lookup[of "mood empty_session"] unfolding g
      by (simp add: handle_callback_def Let_def get_session_def set_session_def emit_def
            branch nat del: ascii_Cons)
  next
    case (Some s)
    then have g: "get_session w (user_id u) = s"
      by (simp add: get_session_def)
    from Some show ?thesis
      using FALLBACK_PLACES_lookup[of "mood s"] unfolding g
      by (simp add: handle_callback_def Let_def get_session_def set_session_def emit_def
            branch nat del: ascii_Cons)
  qed
qed

text \<open>
  C7. Two distance selections made in the same world end in the same world: the same
  recommendations are stored for the user and the same list is rendered, whichever
  bucket was chosen. (Every callback key that starts with \<^verbatim>\<open>dist_\<close> is a distance
  selection.)
\<close>

theorem distance_noninterference:
  "handle_callback E u (ascii ''dist_'' @ d1) w = handle_callback E u (ascii ''dist_'' @ d2) w"
proof -
  let ?recs = "places_for (mood (get_session w (user_id u)))"
  let ?after =
    "(None :: py_error option,
      \<lparr>user_sessions = (user_sessions w)(user_id u \<mapsto>
          (get_session w (user_id u))\<lparr>recommendations := Some ?recs\<rparr>),
       effects = effects w @
         [Answer, Edit_message_text (picks_text ?recs) (Some (place_keyboard ?recs)) markdown]\<rparr>)"
  have "handle_callback E u (ascii ''dist_'' @ d1) w = ?after"
    by (rule handle_callback_dist)
  also have "?after = handle_callback E u (ascii ''dist_'' @ d2) w"
    by (rule handle_callback_dist[symmetric])
  finally show ?thesis .
qed

subsection \<open>The geocoder\<close>

lemma geocode_try_resolve_spec:
  "(case geocode_try E get p of Inl e \<Rightarrow> None | Inr None \<Rightarrow> None | Inr (Some c) \<Rightarrow> Some c) =
     resolve_spec E (get (geocode_url p))"
proof (cases "get (geocode_url p)")
  case Get_raises
  then show ?thesis by (simp add: geocode_try_def resolve_spec_def)
next
  case Json_raises
  then show ?thesis by (simp add: geocode_try_def resolve_spec_def)
next
  case (Json_ok data)
  show ?thesis
  proof (cases data)
    case (JArr xs)
    show ?thesis
    proof (cases xs)
      case Nil
      with JArr Json_ok show ?thesis by (simp add: geocode_try_def resolve_spec_def)
    next
      case (Cons r rest)
      show ?thesis
      proof (cases r)
        case (JObj kvs)
        with Cons JArr Json_ok show ?thesis
          by (auto simp: geocode_try_def resolve_spec_def and_then_def list_getitem_def
                   split: option.splits sum.splits)
      qed (use Cons JArr Json_ok in
            \<open>simp_all add: geocode_try_def resolve_spec_def and_then_def list_getitem_def\<close>)
    qed
  next
    case (JStr s)
    with Json_ok show ?thesis
      by (cases s) (simp_all add: geocode_try_def resolve_spec_def and_then_def list_getitem_def)
  qed (use Json_ok in \<open>simp_all add: geocode_try_def resolve_spec_def and_then_def\<close>)
qed

lemma geocode_location_eq:
  "geocode_location E get p w =
     (resolve_spec E (get (geocode_url p)), emit (Http_get (geocode_url p)) w)"
  by (simp add: geocode_location_def geocode_try_resolve_spec)

lemma geocoded_eq: "geocoded E get p = resolve_spec E (get (geocode_url p))"
  by (simp add: geocoded_def geocode_location_eq)

lemma geocode_location_geocoded:
  "geocode_location E get p w = (geocoded E get p, emit (Http_get (geocode_url p)) w)"
  by (simp add: geocode_location_eq geocoded_eq)

text \<open>
  C8. Whatever the request does, \<^verbatim>\<open>geocode_location\<close> returns a value: the coordinates of
  the first result where the specification's contract \<open>resolve_spec\<close> has them, and
  \<open>None\<close> on every failure; in particular \<open>None\<close> wherever the body of the \<^verbatim>\<open>try\<close> block
  raised. The one request it makes asks for the place name followed by the qualifier
  \<^verbatim>\<open>, Singapore\<close>.
\<close>

theorem geocode_location_never_raises:
  "geocode_location E get p w =
     (resolve_spec E
        (get (ascii ''https://nominatim.openstreetmap.org/search?q='' @
              (p @ ascii '', Singapore'') @ ascii ''&format=json&limit=1'')),
      w\<lparr>effects := effects w @
          [Http_get (ascii ''https://nominatim.openstreetmap.org/search?q='' @
                     (p @ ascii '', Singapore'') @ ascii ''&format=json&limit=1'')]\<rparr>)
   \<and> (\<forall>e. geocode_try E get p = Inl e \<longrightarrow> fst (geocode_location E get p w) = None)
   \<and> resolve_spec E Get_raises = None
   \<and> resolve_spec E Json_raises = None
   \<and> resolve_spec E (Json_ok (JArr [])) = None
   \<and> (\<forall>kvs rest a b lat lon.
        map_of kvs (ascii ''lat'') = Some a \<and> map_of kvs (ascii ''lon'') = Some b \<and>
        py_float E a = Inr lat \<and> py_float E b = Inr lon \<longrightarrow>
        resolve_spec E (Json_ok (JArr (JObj kvs # rest))) = Some (lat, lon))"
proof -
  have "geocode_url p =
          ascii ''https://nominatim.openstreetmap.org/search?q='' @
          (p @ ascii '', Singapore'') @ ascii ''&format=json&limit=1''"
    by (simp add: geocode_url_def)
  then show ?thesis
    using geocode_location_eq[of E get p w]
    by (simp add: emit_def resolve_spec_def geocode_location_def)
qed

theorem geocode_location_never_raises_witness:
  "geocode_try example_env (\<lambda>url. Get_raises) (ascii ''Bedok'') = Inl RequestException
   \<and> fst (geocode_location example_env (\<lambda>url. Get_raises) (ascii ''Bedok'') fresh) = None
   \<and> geocode_location example_env (example_http 0) (ascii ''Orchard Road'') fresh =
       (Some (ascii ''1.3048'', ascii ''103.8318''),
        \<lparr>user_sessions = Map.empty,
         effects = [Http_get (ascii ''https://nominatim.openstreetmap.org/search?q=Orchard Road, Singapore&format=json&limit=1'')]\<rparr>)"
proof -
  have raised:
    "geocode_try example_env (\<lambda>url. Get_raises) (ascii ''Bedok'') = Inl RequestException"
    by (simp add: geocode_try_def)
  note inst = geocode_location_never_raises[of example_env]
  from inst[of "\<lambda>url. Get_raises" "ascii ''Bedok''" fresh] raised
  have none: "fst (geocode_location example_env (\<lambda>url. Get_raises) (ascii ''Bedok'') fresh) = None"
    by blast
  note run = inst[of "example_http 0" "ascii ''Orchard Road''" fresh]
  note success = run[THEN conjunct2, THEN conjunct2, THEN conjunct2, THEN conjunct2,
      THEN conjunct2, rule_format]
  have "resolve_spec example_env
          (Json_ok (JArr [JObj [(ascii ''lat'', JStr (ascii ''1.3048'')),
                                (ascii ''lon'', JStr (ascii ''103.8318''))]])) =
        Some (ascii ''1.3048'', ascii ''103.8318'')"
    by (rule success[of _ "JStr (ascii ''1.3048'')" "JStr (ascii ''103.8318'')"])
       (simp add: example_env_def example_floats_def)
  with run[THEN conjunct1]
  have "geocode_location example_env (example_http 0) (ascii ''Orchard Road'') fresh =
       (Some (ascii ''1.3048'', ascii ''103.8318''),
        fresh\<lparr>effects := effects fresh @
          [Http_get (ascii ''https://nominatim.openstreetmap.org/search?q='' @
                     (ascii ''Orchard Road'' @ ascii '', Singapore'') @
                     ascii ''&format=json&limit=1'')]\<rparr>)"
    by (simp add: example_http_def found_def)
  then show ?thesis using raised none by (simp add: fresh_def)
qed

subsection \<open>Text messages\<close>



lemma handle_message_awaiting:
  assumes "strip (lower E text) \<notin> set greetings"
    and "awaiting_start (get_session w (user_id u)) = Some True"
  shows "handle_message E http u text w =
     (case (geocoded E (http 0) text,
            geocoded E (http 1) (stored_destination w (user_id u))) of
        (Some s, Some e) \<Rightarrow>
          \<lparr>user_sessions = (user_sessions w)(user_id u \<mapsto> empty_session),
           effects = effects w @
             [finding, Http_get (geocode_url text),
              Http_get (geocode_url (stored_destination w (user_id u))),
              route_ready text (stored_destination w (user_id u)) (route_url E s e (user_id u))]\<rparr>
      | _ \<Rightarrow>
          \<lparr>user_sessions = user_sessions w,
           effects = effects w @
             [finding, Http_get (geocode_url text),
              Http_get (geocode_url (stored_destination w (user_id u))), retry]\<rparr>)"
  using assms
  by (simp add: handle_message_def Let_def geocode_location_geocoded stored_destination_def
        emit_def set_session_def split: option.splits)

lemma handle_message_direct:
  assumes "strip (lower E text) \<notin> set greetings"
    and "awaiting_start (get_session w (user_id u)) \<noteq> Some True"
  shows "handle_message E http u text w =
     (case direct_route E text of
        None \<Rightarrow> emit hint w
      | Some (a, b) \<Rightarrow>
          (case (geocoded E (http 0) a, geocoded E (http 1) b) of
             (Some s, Some e) \<Rightarrow>
               \<lparr>user_sessions = user_sessions w,
                effects = effects w @
                  [finding, Http_get (geocode_url a), Http_get (geocode_url b),
                   route_ready a b (route_url E s e (user_id u))]\<rparr>
           | _ \<Rightarrow>
               \<lparr>user_sessions = user_sessions w,
                effects = effects w @
                  [finding, Http_get (geocode_url a), Http_get (geocode_url b), hint]\<rparr>))"
  using assms
  by (simp add: handle_message_def direct_route_def Let_def geocode_location_geocoded
        emit_def split: option.splits del: ascii_Cons)



text \<open>
  C4. In a session that awaits the start location, a text that is not a greeting word is
  taken as the origin. If the geocoder returns nothing for it or for the stored
  destination, the handler sends the progress note and the retry message and nothing
  else (so no link), and every session, this user's with its destination and its flag
  included, is as before.
\<close>

theorem geocoding_failure_keeps_session:
  assumes "awaiting_start (get_session w (user_id u)) = Some True"
    and "strip (lower E text) \<notin> set [ascii ''hi'', ascii ''hello'', ascii ''hey'', ascii ''start'']"
    and "geocoded E (http 0) text = None
       \<or> geocoded E (http 1) (stored_destination w (user_id u)) = None"
  shows "handle_message E http u text w =
     w\<lparr>effects := effects w @
         [Reply_text (e_pin @ ascii '' Finding locations...'') None None,
          Http_get (geocode_url text),
          Http_get (geocode_url (stored_destination w (user_id u))),
          Reply_text (e_confused @ ascii '' Couldn't find location. Try again.'') None None]\<rparr>"
proof -
  have ng: "strip (lower E text) \<notin> set greetings"
    using assms(2) unfolding greetings_def .
  from assms(3) show ?thesis
    unfolding handle_message_awaiting[OF ng assms(1)]
    by (auto simp: finding_def retry_def split: option.splits)
qed

lemma awaiting_world_simps:
  "awaiting_start (get_session awaiting_world (user_id alice)) = Some True"
  "stored_destination awaiting_world (user_id alice) = ascii ''Tiong Bahru''"
  "effects awaiting_world = []"
  by (simp_all add: stored_destination_def get_session_def awaiting_world_def
        awaiting_session_def alice_def)

lemma alice_id: "user_id alice = ascii ''42''"
  by (simp add: alice_def)

theorem geocoding_failure_keeps_session_witness:
  "handle_message example_env (\<lambda>i url. if i = 0 then Get_raises else example_http i url) alice
     (ascii ''Orchard Road'') awaiting_world =
   \<lparr>user_sessions = [ascii ''42'' \<mapsto> awaiting_session],
    effects =
     [Reply_text (e_pin @ ascii '' Finding locations...'') None None,
      Http_get (geocode_url (ascii ''Orchard Road'')),
      Http_get (geocode_url (ascii ''Tiong Bahru'')),
      Reply_text (e_confused @ ascii '' Couldn't find location. Try again.'') None None]\<rparr>"
proof -
  let ?http = "\<lambda>i url. if i = 0 then Get_raises else example_http i url"
  have b: "strip (lower example_env (ascii ''Orchard Road'')) \<notin>
             set [ascii ''hi'', ascii ''hello'', ascii ''hey'', ascii ''start'']"
    by code_simp
  have c: "geocoded example_env (?http 0) (ascii ''Orchard Road'') = None
       \<or> geocoded example_env (?http 1) (stored_destination awaiting_world (user_id alice)) = None"
    by (simp add: geocoded_eq resolve_spec_def)
  from geocoding_failure_keeps_session[OF awaiting_world_simps(1) b c] show ?thesis
    unfolding awaiting_world_simps(2,3) by (simp add: awaiting_world_def)
qed

text \<open>
  C1, as the code has it. Whenever both names geocode, on the path of a session that
  awaits the start location and on the free-text path alike, the link in the reply is the
  base address followed by \<^verbatim>\<open>?start=<lat>,<lon>&end=<lat>,<lon>&tg=<userId>\<close>: the
  parameter that carries the user's identifier is named \<^verbatim>\<open>tg\<close>.
\<close>

theorem route_link_format:
  assumes "strip (lower E text) \<notin> set [ascii ''hi'', ascii ''hello'', ascii ''hey'', ascii ''start'']"
    and "(awaiting_start (get_session w (user_id u)) = Some True \<and>
          origin = text \<and> dest = stored_destination w (user_id u))
       \<or> (awaiting_start (get_session w (user_id u)) \<noteq> Some True \<and>
          direct_route E text = Some (origin, dest))"
    and "geocoded E (http 0) origin = Some (lat1, lon1)"
    and "geocoded E (http 1) dest = Some (lat2, lon2)"
  shows "effects (handle_message E http u text w) =
     effects w @
     [Reply_text (e_pin @ ascii '' Finding locations...'') None None,
      Http_get (geocode_url origin),
      Http_get (geocode_url dest),
      Reply_text
        (e_map @ ascii '' *Route ready!*'' @ nl @ nl @ e_pin @ ascii '' '' @ origin @
         ascii '' '' @ e_arrow @ ascii '' '' @ dest @ nl @ nl @ e_point @
         ascii '' [Open map]('' @
         (APP_URL E @ ascii ''?start='' @ float_str E lat1 @ ascii '','' @ float_str E lon1 @
          ascii ''&end='' @ float_str E lat2 @ ascii '','' @ float_str E lon2 @
          ascii ''&tg='' @ user_id u) @
         ascii '')'')
        None (Some (ascii ''Markdown''))]"
proof -
  have ng: "strip (lower E text) \<notin> set greetings"
    using assms(1) unfolding greetings_def .
  from assms(2) show ?thesis
  proof (elim disjE conjE)
    assume aw: "awaiting_start (get_session w (user_id u)) = Some True"
      and o: "origin = text" and d: "dest = stored_destination w (user_id u)"
    from assms(3,4) show ?thesis
      unfolding handle_message_awaiting[OF ng aw] o d
      by (simp add: finding_def route_ready_def route_url_def markdown_def)
  next
    assume naw: "awaiting_start (get_session w (user_id u)) \<noteq> Some True"
      and r: "direct_route E text = Some (origin, dest)"
    from assms(3,4) r show ?thesis
      unfolding handle_message_direct[OF ng naw]
      by (simp add: finding_def route_ready_def route_url_def markdown_def)
  qed
qed

lemma example_geocoded:
  "geocoded example_env (example_http 0) p = Some (ascii ''1.3048'', ascii ''103.8318'')"
  "geocoded example_env (example_http 1) p = Some (ascii ''1.2863'', ascii ''103.8273'')"
  by (simp_all add: geocoded_eq resolve_spec_def example_http_def found_def example_env_def
        example_floats_def)

theorem route_link_format_witness:
  "effects (handle_message example_env example_http alice (ascii ''Orchard Road'') awaiting_world) =
     [Reply_text (e_pin @ ascii '' Finding locations...'') None None,
      Http_get (geocode_url (ascii ''Orchard Road'')),
      Http_get (geocode_url (ascii ''Tiong Bahru'')),
      Reply_text
        (e_map @ ascii '' *Route ready!*'' @ nl @ nl @ e_pin @ ascii '' Orchard Road '' @ e_arrow @
         ascii '' Tiong Bahru'' @ nl @ nl @ e_point @
         ascii '' [Open map](https://thermal-optimizers-coolride-engine.hf.space?start=1.3048,103.8318&end=1.2863,103.8273&tg=42)'')
        None (Some (ascii ''Markdown''))]"
proof -
  have a: "strip (lower example_env (ascii ''Orchard Road'')) \<notin>
             set [ascii ''hi'', ascii ''hello'', ascii ''hey'', ascii ''start'']"
    by code_simp
  have b: "(awaiting_start (get_session awaiting_world (user_id alice)) = Some True \<and>
          ascii ''Orchard Road'' = ascii ''Orchard Road'' \<and>
          ascii ''Tiong Bahru'' = stored_destination awaiting_world (user_id alice))
       \<or> (awaiting_start (get_session awaiting_world (user_id alice)) \<noteq> Some True \<and>
          direct_route example_env (ascii ''Orchard Road'') =
            Some (ascii ''Orchard Road'', ascii ''Tiong Bahru''))"
    unfolding awaiting_world_simps by simp
  from route_link_format[OF a b example_geocoded(1) example_geocoded(2)]
  show ?thesis
    by (simp add: awaiting_world_simps alice_id example_env_def)
qed

text \<open>
  The claim as the specification words it, with the parameter named \<^verbatim>\<open>user\<close>, fails on
  the same run: the reply that would carry that link is not among the messages sent.
\<close>

theorem route_link_user_parameter_counterexample:
  "Reply_text
     (e_map @ ascii '' *Route ready!*'' @ nl @ nl @ e_pin @ ascii '' Orchard Road '' @ e_arrow @
      ascii '' Tiong Bahru'' @ nl @ nl @ e_point @
      ascii '' [Open map](https://thermal-optimizers-coolride-engine.hf.space?start=1.3048,103.8318&end=1.2863,103.8273&user=42)'')
     None (Some (ascii ''Markdown''))
   \<notin> set (effects (handle_message example_env example_http alice (ascii ''Orchard Road'')
               awaiting_world))
   \<and> geocoded example_env (example_http 0) (ascii ''Orchard Road'') =
       Some (ascii ''1.3048'', ascii ''103.8318'')
   \<and> geocoded example_env (example_http 1) (ascii ''Tiong Bahru'') =
       Some (ascii ''1.2863'', ascii ''103.8273'')"
  by code_simp

text \<open>
  On the path of a session that awaits the start location, the handler ends with the link
  as the last message sent and with the empty session stored for the user.
\<close>

lemma awaiting_start_link_resets_session:
  assumes "awaiting_start (get_session w (user_id u)) = Some True"
    and "strip (lower E text) \<notin> set greetings"
    and "geocoded E (http 0) text = Some s"
    and "geocoded E (http 1) (stored_destination w (user_id u)) = Some e"
  shows "handle_message E http u text w =
     \<lparr>user_sessions = (user_sessions w)(user_id u \<mapsto> empty_session),
      effects = effects w @
        [finding, Http_get (geocode_url text),
         Http_get (geocode_url (stored_destination w (user_id u))),
         route_ready text (stored_destination w (user_id u)) (route_url E s e (user_id u))]\<rparr>"
  using assms(3,4) unfolding handle_message_awaiting[OF assms(2,1)] by simp

text \<open>
  C2 fails on the free-text path, which sends the same link as the path above and leaves
  out its \<^verbatim>\<open>user_sessions[user_id] = {}\<close>. Alice has pressed "I know where I'm going" and
  types the example the bot itself gives. Both names geocode and the link is sent, and
  her session still holds the mode afterwards: it is not the empty session.
\<close>

theorem free_text_link_keeps_session:
  "direct_route example_env (ascii ''From Marina Bay to East Coast Park'') =
     Some (ascii ''marina bay'', ascii ''east coast park'')
   \<and> effects (handle_message example_env example_http alice
        (ascii ''From Marina Bay to East Coast Park'') direct_world) =
       [finding, Http_get (geocode_url (ascii ''marina bay'')),
        Http_get (geocode_url (ascii ''east coast park'')),
        route_ready (ascii ''marina bay'') (ascii ''east coast park'')
          (ascii ''https://thermal-optimizers-coolride-engine.hf.space?start=1.3048,103.8318&end=1.2863,103.8273&tg=42'')]
   \<and> user_sessions (handle_message example_env example_http alice
        (ascii ''From Marina Bay to East Coast Park'') direct_world) (ascii ''42'') =
       Some (empty_session\<lparr>mode := Some (ascii ''direct'')\<rparr>)
   \<and> empty_session\<lparr>mode := Some (ascii ''direct'')\<rparr> \<noteq> empty_session"
  by code_simp

subsection \<open>Mood and place selections\<close>

lemma replace_no_occurrence: "\<not> sublist old s \<Longrightarrow> replace old new s = s"
  by (induction s) (auto simp: sublist_Cons_right)

lemma replace_at_prefix: "old \<noteq> [] \<Longrightarrow> replace old new (old @ s) = new @ replace old new s"
  by (cases old) simp_all

lemma handle_callback_mood:
  "handle_callback E u (ascii ''mood_'' @ sfx) w =
     (None,
      \<lparr>user_sessions = (user_sessions w)(user_id u \<mapsto>
          (get_session w (user_id u))\<lparr>mood := Some (replace (ascii ''mood_'') [] sfx)\<rparr>),
       effects = effects w @
         [Answer,
          Edit_message_text (how_far_text E (replace (ascii ''mood_'') [] sfx))
            (Some dist_keyboard) markdown]\<rparr>)"
proof -
  have r: "replace (ascii ''mood_'') [] (ascii ''mood_'' @ sfx) = replace (ascii ''mood_'') [] sfx"
    using replace_at_prefix[of "ascii ''mood_''" "[]" sfx] by simp
  have branch: "ascii ''mood_'' @ sfx \<noteq> ascii ''mode_direct''"
    "ascii ''mood_'' @ sfx \<noteq> ascii ''mode_recommend''"
    "prefix (ascii ''mood_'') (ascii ''mood_'' @ sfx)"
    by simp_all
  show ?thesis
  proof (cases "user_sessions w (user_id u)")
    case None
    then show ?thesis
      by (simp add: handle_callback_def Let_def get_session_def set_session_def emit_def
            branch r del: ascii_Cons)
  next
    case (Some s)
    then show ?thesis
      by (simp add: handle_callback_def Let_def get_session_def set_session_def emit_def
            branch r del: ascii_Cons)
  qed
qed

text \<open>
  C6. Selecting one of the three moods records it and replaces the menu by the
  distance-choice menu: the handler acknowledges the query and then edits the message
  into the text of line 111 with the three distance keys \<^verbatim>\<open>dist_short\<close>,
  \<^verbatim>\<open>dist_medium\<close> and \<^verbatim>\<open>dist_long\<close>. The distance selection that follows stores the list
  the fixed table has for that mood, which has three entries, and renders it; the same
  list is stored in any world whose session records that mood, and where the session
  records no mood the list stored is the one for \<^verbatim>\<open>nature\<close>.
\<close>

theorem mood_then_distance:
  assumes "m \<in> set [ascii ''nature'', ascii ''food'', ascii ''views'']"
  shows "fst (handle_callback E u (ascii ''mood_'' @ m) w) = None
    \<and> effects (snd (handle_callback E u (ascii ''mood_'' @ m) w)) =
        effects w @
        [Answer,
         Edit_message_text
           (ascii ''*'' @ title E m @ ascii ''* - nice!'' @ nl @ nl @ ascii ''*How far?*'')
           (Some dist_keyboard) (Some (ascii ''Markdown''))]
    \<and> user_sessions (snd (handle_callback E u (ascii ''mood_'' @ m) w)) =
        (user_sessions w)(user_id u \<mapsto> (get_session w (user_id u))\<lparr>mood := Some m\<rparr>)
    \<and> map (map snd) dist_keyboard =
        [[ascii ''dist_short''], [ascii ''dist_medium''], [ascii ''dist_long'']]
    \<and> (\<exists>a b c. FALLBACK_PLACES m = Some [a, b, c] \<and>
         handle_callback E u (ascii ''dist_'' @ d)
           (snd (handle_callback E u (ascii ''mood_'' @ m) w)) =
         (None,
          \<lparr>user_sessions = (user_sessions w)(user_id u \<mapsto>
              (get_session w (user_id u))\<lparr>mood := Some m, recommendations := Some [a, b, c]\<rparr>),
           effects = effects w @
             [Answer,
              Edit_message_text
                (ascii ''*'' @ title E m @ ascii ''* - nice!'' @ nl @ nl @ ascii ''*How far?*'')
                (Some dist_keyboard) (Some (ascii ''Markdown'')),
              Answer,
              Edit_message_text (picks_text [a, b, c]) (Some (place_keyboard [a, b, c]))
                (Some (ascii ''Markdown''))]\<rparr>))
    \<and> (mood (get_session w' (user_id u)) = Some m \<longrightarrow>
        user_sessions (snd (handle_callback E u (ascii ''dist_'' @ d) w')) (user_id u) =
          Some ((get_session w' (user_id u))\<lparr>recommendations := FALLBACK_PLACES m\<rparr>))
    \<and> (mood (get_session w' (user_id u)) = None \<longrightarrow>
        user_sessions (snd (handle_callback E u (ascii ''dist_'' @ d) w')) (user_id u) =
          Some ((get_session w' (user_id u))
                  \<lparr>recommendations := FALLBACK_PLACES (ascii ''nature'')\<rparr>))"
proof -
  have r: "replace (ascii ''mood_'') [] m = m"
    using assms by auto
  have p: "Some (places_for (Some m)) = FALLBACK_PLACES m"
    using assms by (auto simp: places_for_def FALLBACK_PLACES_def)
  obtain a b c where three: "places_for (Some m) = [a, b, c]"
    using assms
    by (auto simp: places_for_def nature_places_def food_places_def views_places_def)
  have keys: "map (map snd) dist_keyboard =
                [[ascii ''dist_short''], [ascii ''dist_medium''], [ascii ''dist_long'']]"
    by (simp add: dist_keyboard_def)
  have none: "Some (places_for None) = FALLBACK_PLACES (ascii ''nature'')"
    by (simp add: places_for_def FALLBACK_PLACES_def)
  have md: "markdown = Some (ascii ''Markdown'')"
    by (rule markdown_def)
  have shown: "how_far_text E m =
               ascii ''*'' @ title E m @ ascii ''* - nice!'' @ nl @ nl @ ascii ''*How far?*''"
    by (rule how_far_text_def)
  have step1: "handle_callback E u (ascii ''mood_'' @ m) w =
     (None,
      \<lparr>user_sessions = (user_sessions w)(user_id u \<mapsto>
          (get_session w (user_id u))\<lparr>mood := Some m\<rparr>),
       effects = effects w @
         [Answer,
          Edit_message_text
            (ascii ''*'' @ title E m @ ascii ''* - nice!'' @ nl @ nl @ ascii ''*How far?*'')
            (Some dist_keyboard) (Some (ascii ''Markdown''))]\<rparr>)"
    unfolding handle_callback_mood r md shown ..
  have step2: "FALLBACK_PLACES m = Some [a, b, c] \<and>
         handle_callback E u (ascii ''dist_'' @ d)
           (snd (handle_callback E u (ascii ''mood_'' @ m) w)) =
         (None,
          \<lparr>user_sessions = (user_sessions w)(user_id u \<mapsto>
              (get_session w (user_id u))\<lparr>mood := Some m, recommendations := Some [a, b, c]\<rparr>),
           effects = effects w @
             [Answer,
              Edit_message_text
                (ascii ''*'' @ title E m @ ascii ''* - nice!'' @ nl @ nl @ ascii ''*How far?*'')
                (Some dist_keyboard) (Some (ascii ''Markdown'')),
              Answer,
              Edit_message_text (picks_text [a, b, c]) (Some (place_keyboard [a, b, c]))
                (Some (ascii ''Markdown''))]\<rparr>)"
    unfolding step1 handle_callback_dist md
    using p three by (simp add: get_session_def del: ascii_Cons)
  have recorded: "mood (get_session w' (user_id u)) = Some m \<longrightarrow>
        user_sessions (snd (handle_callback E u (ascii ''dist_'' @ d) w')) (user_id u) =
          Some ((get_session w' (user_id u))\<lparr>recommendations := FALLBACK_PLACES m\<rparr>)"
    unfolding handle_callback_dist using p by (simp del: ascii_Cons)
  have unrecorded: "mood (get_session w' (user_id u)) = None \<longrightarrow>
        user_sessions (snd (handle_callback E u (ascii ''dist_'' @ d) w')) (user_id u) =
          Some ((get_session w' (user_id u))
                  \<lparr>recommendations := FALLBACK_PLACES (ascii ''nature'')\<rparr>)"
    unfolding handle_callback_dist using none by (simp del: ascii_Cons)
  from step2 have ex: "\<exists>a b c. FALLBACK_PLACES m = Some [a, b, c] \<and>
         handle_callback E u (ascii ''dist_'' @ d)
           (snd (handle_callback E u (ascii ''mood_'' @ m) w)) =
         (None,
          \<lparr>user_sessions = (user_sessions w)(user_id u \<mapsto>
              (get_session w (user_id u))\<lparr>mood := Some m, recommendations := Some [a, b, c]\<rparr>),
           effects = effects w @
             [Answer,
              Edit_message_text
                (ascii ''*'' @ title E m @ ascii ''* - nice!'' @ nl @ nl @ ascii ''*How far?*'')
                (Some dist_keyboard) (Some (ascii ''Markdown'')),
              Answer,
              Edit_message_text (picks_text [a, b, c]) (Some (place_keyboard [a, b, c]))
                (Some (ascii ''Markdown''))]\<rparr>)"
    by blast
  show ?thesis
    unfolding step1 fst_conv snd_conv world.simps
    by (intro conjI refl keys ex[unfolded step1 snd_conv] recorded unrecorded)
qed

theorem mood_then_distance_witness:
  "ascii ''food'' \<in> set [ascii ''nature'', ascii ''food'', ascii ''views'']
   \<and> effects (snd (handle_callback example_env alice (ascii ''mood_food'') fresh)) =
       [Answer,
        Edit_message_text (ascii ''*Food* - nice!'' @ [0x0A, 0x0A] @ ascii ''*How far?*'')
          (Some [[([0x1F6B4] @ ascii '' 10-20 min'', ascii ''dist_short'')],
                 [([0x1F6B4, 0x200D, 0x2642, 0xFE0F] @ ascii '' 20-40 min'', ascii ''dist_medium'')],
                 [([0x1F6B4, 0x200D, 0x2640, 0xFE0F] @ ascii '' 40+ min'', ascii ''dist_long'')]])
          (Some (ascii ''Markdown''))]
   \<and> user_sessions (snd (handle_callback example_env alice (ascii ''mood_food'') fresh))
       (ascii ''42'') = Some (empty_session\<lparr>mood := Some (ascii ''food'')\<rparr>)
   \<and> user_sessions
       (snd (handle_callback example_env alice (ascii ''dist_medium'')
               (snd (handle_callback example_env alice (ascii ''mood_food'') fresh))))
       (ascii ''42'') =
       Some (empty_session\<lparr>mood := Some (ascii ''food''), recommendations := Some food_places\<rparr>)
   \<and> user_sessions (snd (handle_callback example_env alice (ascii ''dist_medium'') fresh))
       (ascii ''42'') = Some (empty_session\<lparr>recommendations := Some nature_places\<rparr>)"
proof -
  have h: "ascii ''food'' \<in> set [ascii ''nature'', ascii ''food'', ascii ''views'']"
    by simp
  have t: "title example_env (ascii ''food'') = ascii ''Food''"
    by code_simp
  have keys: "dist_keyboard =
                [[([0x1F6B4] @ ascii '' 10-20 min'', ascii ''dist_short'')],
                 [([0x1F6B4, 0x200D, 0x2642, 0xFE0F] @ ascii '' 20-40 min'', ascii ''dist_medium'')],
                 [([0x1F6B4, 0x200D, 0x2640, 0xFE0F] @ ascii '' 40+ min'', ascii ''dist_long'')]]"
    by (simp add: dist_keyboard_def e_cyclist_def e_cyclist_man_def e_cyclist_woman_def)
  have g: "get_session fresh (user_id alice) = empty_session"
    and g': "get_session fresh (ascii ''42'') = empty_session"
    by (simp_all add: get_session_def fresh_def)
  have nomood: "mood (get_session fresh (user_id alice)) = None"
    by (simp add: g empty_session_def)
  have s: "user_sessions fresh = Map.empty" and e: "effects fresh = []"
    by (simp_all add: fresh_def)
  have d: "ascii ''dist_medium'' = ascii ''dist_'' @ ascii ''medium''"
    and m: "ascii ''mood_food'' = ascii ''mood_'' @ ascii ''food''"
    by simp_all
  note run = mood_then_distance[OF h, of example_env alice fresh "ascii ''medium''" fresh]
  have shown: "effects (snd (handle_callback example_env alice (ascii ''mood_food'') fresh)) =
       [Answer,
        Edit_message_text (ascii ''*Food* - nice!'' @ [0x0A, 0x0A] @ ascii ''*How far?*'')
          (Some [[([0x1F6B4] @ ascii '' 10-20 min'', ascii ''dist_short'')],
                 [([0x1F6B4, 0x200D, 0x2642, 0xFE0F] @ ascii '' 20-40 min'', ascii ''dist_medium'')],
                 [([0x1F6B4, 0x200D, 0x2640, 0xFE0F] @ ascii '' 40+ min'', ascii ''dist_long'')]])
          (Some (ascii ''Markdown''))]"
    using run[THEN conjunct2, THEN conjunct1, unfolded t] by (simp add: e keys nl_def)
  note stored = run[THEN conjunct2, THEN conjunct2, THEN conjunct1, unfolded s alice_id g',
      folded m]
  note unrecorded = run[THEN conjunct2, THEN conjunct2, THEN conjunct2, THEN conjunct2,
      THEN conjunct2, THEN conjunct2, THEN mp, OF nomood,
      unfolded alice_id g' FALLBACK_PLACES_simps, folded d]
  from run[THEN conjunct2, THEN conjunct2, THEN conjunct2, THEN conjunct2, THEN conjunct1]
  obtain a b c where abc: "FALLBACK_PLACES (ascii ''food'') = Some [a, b, c]"
    and both: "handle_callback example_env alice (ascii ''dist_'' @ ascii ''medium'')
           (snd (handle_callback example_env alice (ascii ''mood_'' @ ascii ''food'') fresh)) =
         (None,
          \<lparr>user_sessions = (user_sessions fresh)(user_id alice \<mapsto>
              (get_session fresh (user_id alice))
                \<lparr>mood := Some (ascii ''food''), recommendations := Some [a, b, c]\<rparr>),
           effects = effects fresh @
             [Answer,
              Edit_message_text
                (ascii ''*'' @ title example_env (ascii ''food'') @ ascii ''* - nice!'' @ nl @ nl @
                 ascii ''*How far?*'')
                (Some dist_keyboard) (Some (ascii ''Markdown'')),
              Answer,
              Edit_message_text (picks_text [a, b, c]) (Some (place_keyboard [a, b, c]))
                (Some (ascii ''Markdown''))]\<rparr>)"
    by blast
  from abc have fp: "[a, b, c] = food_places"
    unfolding FALLBACK_PLACES_simps by simp
  have after: "user_sessions
       (snd (handle_callback example_env alice (ascii ''dist_medium'')
               (snd (handle_callback example_env alice (ascii ''mood_food'') fresh))))
       (ascii ''42'') =
       Some (empty_session\<lparr>mood := Some (ascii ''food''), recommendations := Some food_places\<rparr>)"
    unfolding d m both fp alice_id g' by simp
  have stored': "user_sessions (snd (handle_callback example_env alice (ascii ''mood_food'') fresh))
       (ascii ''42'') = Some (empty_session\<lparr>mood := Some (ascii ''food'')\<rparr>)"
    unfolding stored by simp
  show ?thesis
    by (intro conjI h shown stored' after unrecorded)
qed

text \<open>
  C9, as the code has it. For a key \<^verbatim>\<open>mood_<suffix>\<close> whose suffix holds no further
  \<^verbatim>\<open>mood_\<close>, the handler stores the suffix as the mood of the session, whatever it is (no
  comparison with the fixed moods is made), and shows the distance menu. A distance
  selection in a session whose stored mood is none of the three fixed moods stores and
  renders the \<^verbatim>\<open>nature\<close> list.
\<close>

theorem mood_stored_unvalidated:
  "(\<not> sublist (ascii ''mood_'') sfx \<longrightarrow>
       handle_callback E u (ascii ''mood_'' @ sfx) w =
         (None,
          \<lparr>user_sessions = (user_sessions w)(user_id u \<mapsto>
              (get_session w (user_id u))\<lparr>mood := Some sfx\<rparr>),
           effects = effects w @
             [Answer,
              Edit_message_text
                (ascii ''*'' @ title E sfx @ ascii ''* - nice!'' @ nl @ nl @ ascii ''*How far?*'')
                (Some dist_keyboard) (Some (ascii ''Markdown''))]\<rparr>))
   \<and> (mood (get_session w (user_id u)) = Some m \<and>
       m \<notin> set [ascii ''nature'', ascii ''food'', ascii ''views'']
       \<longrightarrow>
       handle_callback E u (ascii ''dist_'' @ d) w =
         (None,
          \<lparr>user_sessions = (user_sessions w)(user_id u \<mapsto>
              (get_session w (user_id u))\<lparr>recommendations := Some nature_places\<rparr>),
           effects = effects w @
             [Answer,
              Edit_message_text (picks_text nature_places) (Some (place_keyboard nature_places))
                (Some (ascii ''Markdown''))]\<rparr>))"
proof (intro conjI impI)
  assume "\<not> sublist (ascii ''mood_'') sfx"
  then have "replace (ascii ''mood_'') [] sfx = sfx"
    by (rule replace_no_occurrence)
  then show "handle_callback E u (ascii ''mood_'' @ sfx) w =
         (None,
          \<lparr>user_sessions = (user_sessions w)(user_id u \<mapsto>
              (get_session w (user_id u))\<lparr>mood := Some sfx\<rparr>),
           effects = effects w @
             [Answer,
              Edit_message_text
                (ascii ''*'' @ title E sfx @ ascii ''* - nice!'' @ nl @ nl @ ascii ''*How far?*'')
                (Some dist_keyboard) (Some (ascii ''Markdown''))]\<rparr>)"
    unfolding handle_callback_mood how_far_text_def markdown_def by (simp only:)
next
  assume "mood (get_session w (user_id u)) = Some m \<and>
          m \<notin> set [ascii ''nature'', ascii ''food'', ascii ''views'']"
  then have "places_for (mood (get_session w (user_id u))) = nature_places"
    by (simp add: places_for_def del: ascii_Cons)
  then show "handle_callback E u (ascii ''dist_'' @ d) w =
         (None,
          \<lparr>user_sessions = (user_sessions w)(user_id u \<mapsto>
              (get_session w (user_id u))\<lparr>recommendations := Some nature_places\<rparr>),
           effects = effects w @
             [Answer,
              Edit_message_text (picks_text nature_places) (Some (place_keyboard nature_places))
                (Some (ascii ''Markdown''))]\<rparr>)"
    unfolding handle_callback_dist markdown_def by (simp only:)
qed

theorem mood_stored_unvalidated_witness:
  "\<not> sublist (ascii ''mood_'') (ascii ''beach'')
   \<and> user_sessions (snd (handle_callback example_env alice (ascii ''mood_beach'') fresh))
       (ascii ''42'') = Some (empty_session\<lparr>mood := Some (ascii ''beach'')\<rparr>)
   \<and> ascii ''beach'' \<notin> set [ascii ''nature'', ascii ''food'', ascii ''views'']
   \<and> user_sessions
       (snd (handle_callback example_env alice (ascii ''dist_long'')
               (snd (handle_callback example_env alice (ascii ''mood_beach'') fresh))))
       (ascii ''42'') =
       Some (empty_session\<lparr>mood := Some (ascii ''beach''), recommendations := Some nature_places\<rparr>)"
proof -
  let ?w = "snd (handle_callback example_env alice (ascii ''mood_'' @ ascii ''beach'') fresh)"
  have a: "\<not> sublist (ascii ''mood_'') (ascii ''beach'')"
    by code_simp
  have b: "ascii ''beach'' \<notin> set [ascii ''nature'', ascii ''food'', ascii ''views'']"
    by simp
  have g: "get_session fresh (ascii ''42'') = empty_session"
    by (simp add: get_session_def fresh_def)
  have s: "user_sessions fresh = Map.empty"
    by (simp add: fresh_def)
  have d: "ascii ''dist_long'' = ascii ''dist_'' @ ascii ''long''"
    and m: "ascii ''mood_beach'' = ascii ''mood_'' @ ascii ''beach''"
    by simp_all
  note select = mood_stored_unvalidated[of "ascii ''beach''" example_env alice fresh,
      THEN conjunct1, THEN mp, OF a]
  have stored: "user_sessions ?w (ascii ''42'') = Some (empty_session\<lparr>mood := Some (ascii ''beach'')\<rparr>)"
    unfolding select s alice_id g by simp
  then have gw': "get_session ?w (ascii ''42'') = empty_session\<lparr>mood := Some (ascii ''beach'')\<rparr>"
    by (simp add: get_session_def del: ascii_Cons)
  then have gw: "get_session ?w (user_id alice) = empty_session\<lparr>mood := Some (ascii ''beach'')\<rparr>"
    unfolding alice_id .
  have c: "mood (get_session ?w (user_id alice)) = Some (ascii ''beach'') \<and>
           ascii ''beach'' \<notin> set [ascii ''nature'', ascii ''food'', ascii ''views'']"
    unfolding gw using b by (simp del: ascii_Cons)
  note dist = mood_stored_unvalidated[of _ example_env alice ?w "ascii ''beach''" "ascii ''long''",
      THEN conjunct2, THEN mp, OF c]
  have after: "user_sessions (snd (handle_callback example_env alice (ascii ''dist_'' @ ascii ''long'') ?w))
       (ascii ''42'') =
       Some (empty_session\<lparr>mood := Some (ascii ''beach''), recommendations := Some nature_places\<rparr>)"
    unfolding dist alice_id gw' by simp
  show ?thesis
    unfolding d m by (intro conjI a stored b after)
qed

text \<open>
  The claim as worded, with the remaining suffix stored, fails where the suffix holds
  \<^verbatim>\<open>mood_\<close> again: for the key \<^verbatim>\<open>mood_mood_food\<close> the suffix is \<^verbatim>\<open>mood_food\<close>, which is no
  fixed mood, and the mood stored is \<^verbatim>\<open>food\<close>, so that the next distance selection stores
  the food list.
\<close>

theorem mood_suffix_counterexample:
  "prefix (ascii ''mood_'') (ascii ''mood_mood_food'')
   \<and> drop (length (ascii ''mood_'')) (ascii ''mood_mood_food'') = ascii ''mood_food''
   \<and> mood (get_session (snd (handle_callback example_env alice (ascii ''mood_mood_food'') fresh))
             (ascii ''42'')) = Some (ascii ''food'')
   \<and> ascii ''food'' \<noteq> ascii ''mood_food''
   \<and> ascii ''mood_food'' \<notin> set [ascii ''nature'', ascii ''food'', ascii ''views'']
   \<and> recommendations
       (get_session
          (snd (handle_callback example_env alice (ascii ''dist_long'')
                  (snd (handle_callback example_env alice (ascii ''mood_mood_food'') fresh))))
          (ascii ''42'')) =
       Some food_places"
  by code_simp

lemma handle_callback_place:
  assumes "py_int E (replace (ascii ''place_'') [] (ascii ''place_'' @ k)) = Inr idx"
  shows "handle_callback E u (ascii ''place_'' @ k) w =
     (let recs = (case recommendations (get_session w (user_id u)) of None \<Rightarrow> [] | Some r \<Rightarrow> r);
          w2 = \<lparr>user_sessions = (user_sessions w)(user_id u \<mapsto> get_session w (user_id u)),
                effects = effects w @ [Answer]\<rparr>
      in if idx < int (length recs) then
           (case list_getitem recs idx of
              Inl e \<Rightarrow> (Some e, w2)
            | Inr r \<Rightarrow>
                (None,
                 \<lparr>user_sessions = (user_sessions w)(user_id u \<mapsto>
                     (get_session w (user_id u))
                       \<lparr>destination := Some (name r), awaiting_start := Some True\<rparr>),
                  effects = effects w @
                    [Answer, Edit_message_text (destination_text (name r)) None markdown]\<rparr>))
         else (None, w2))"
proof -
  have branch: "ascii ''place_'' @ k \<noteq> ascii ''mode_direct''"
    "ascii ''place_'' @ k \<noteq> ascii ''mode_recommend''"
    "\<not> prefix (ascii ''mood_'') (ascii ''place_'' @ k)"
    "\<not> prefix (ascii ''dist_'') (ascii ''place_'' @ k)"
    "prefix (ascii ''place_'') (ascii ''place_'' @ k)"
    by simp_all
  show ?thesis
  proof (cases "user_sessions w (user_id u)")
    case None
    then show ?thesis
      using assms
      by (simp add: handle_callback_def Let_def get_session_def set_session_def emit_def
            branch split: sum.splits del: ascii_Cons)
  next
    case (Some s)
    then have "(user_sessions w)(user_id u \<mapsto> s) = user_sessions w"
      by (simp add: fun_upd_idem)
    with Some show ?thesis
      using assms
      by (simp add: handle_callback_def Let_def get_session_def set_session_def emit_def
            branch split: sum.splits del: ascii_Cons)
  qed
qed

text \<open>
  C3 holds for an index at or past the end of the list: nothing but the acknowledgement
  of the query happens, and the session of the user is as before.
\<close>

lemma place_index_past_end_ignored:
  assumes "py_int E (replace (ascii ''place_'') [] (ascii ''place_'' @ k)) = Inr idx"
    and "int (length (case recommendations (get_session w (user_id u)) of
                        None \<Rightarrow> [] | Some r \<Rightarrow> r)) \<le> idx"
  shows "fst (handle_callback E u (ascii ''place_'' @ k) w) = None"
    and "effects (snd (handle_callback E u (ascii ''place_'' @ k) w)) = effects w @ [Answer]"
    and "get_session (snd (handle_callback E u (ascii ''place_'' @ k) w)) uid = get_session w uid"
  using assms(2) unfolding handle_callback_place[OF assms(1)]
  by (simp_all add: Let_def get_session_def)

text \<open>
  C3 fails below zero, where the guard \<^verbatim>\<open>idx < len(recs)\<close> lets the index through and
  \<^verbatim>\<open>recs[idx]\<close> counts from the end. Alice sees the three food places and the key
  \<^verbatim>\<open>place_-1\<close> arrives: the last place becomes her destination, the flag is set and the
  prompt for the origin is sent. For \<^verbatim>\<open>place_-5\<close> the handler ends with \<^verbatim>\<open>IndexError\<close>.
\<close>

theorem negative_place_index_not_ignored:
  "py_int example_env (replace (ascii ''place_'') [] (ascii ''place_-1'')) = Inr (- 1)
   \<and> fst (handle_callback example_env alice (ascii ''place_-1'') places_world) = None
   \<and> user_sessions (snd (handle_callback example_env alice (ascii ''place_-1'') places_world))
       (ascii ''42'') =
       Some (empty_session
               \<lparr>mood := Some (ascii ''food''), recommendations := Some food_places,
                destination := Some (ascii ''Kampong Glam''), awaiting_start := Some True\<rparr>)
   \<and> effects (snd (handle_callback example_env alice (ascii ''place_-1'') places_world)) =
       [Answer,
        Edit_message_text
          (e_target @ ascii '' *Destination: Kampong Glam*'' @ nl @ nl @
           ascii ''Where are you starting from?'')
          None (Some (ascii ''Markdown''))]
   \<and> fst (handle_callback example_env alice (ascii ''place_-5'') places_world) = Some IndexError"
  by code_simp

subsection \<open>The free-text route\<close>

lemma occurrences_0: "sub \<noteq> [] \<Longrightarrow> (occurrences sub s = 0) = (\<not> sublist sub s)"
  by (induction s) (auto simp: sublist_Cons_right)

lemma split_from_none: "\<not> sublist sep s \<Longrightarrow> split_from sep cur s = [cur @ s]"
  by (induction s arbitrary: cur) (auto simp: sublist_Cons_right)

lemma split_from_one:
  assumes "sep \<noteq> []" and "occurrences sep (a @ sep @ b) = 1"
  shows "split_from sep cur (a @ sep @ b) = [cur @ a, b]"
  using assms(2)
proof (induction a arbitrary: cur)
  case Nil
  from assms(1) obtain c ss where sep: "sep = c # ss" by (cases sep) auto
  from Nil have "occurrences sep (ss @ b) = 0" by (simp add: sep)
  then have "\<not> sublist sep (ss @ b)" using assms(1) by (simp add: occurrences_0)
  then have "\<not> sublist sep b" by (auto simp: sublist_append)
  then show ?case by (simp add: sep split_from_none)
next
  case (Cons x a)
  have "sublist sep (a @ sep @ b)" by simp
  then have pos: "occurrences sep (a @ sep @ b) \<noteq> 0" using assms(1) by (simp add: occurrences_0)
  with Cons.prems have np: "\<not> prefix sep (x # a @ sep @ b)"
    and one: "occurrences sep (a @ sep @ b) = 1"
    by (auto split: if_splits)
  from np one Cons.IH[of "cur @ [x]"] show ?case by simp
qed

lemma strip_Cons_space: "isspace c \<Longrightarrow> strip (c # s) = strip s"
  by (simp add: strip_def)

lemma strip_snoc_space:
  assumes "isspace c"
  shows "strip (s @ [c]) = strip s"
proof (cases "\<forall>x\<in>set s. isspace x")
  case True
  with assms have "\<forall>x\<in>set (s @ [c]). isspace x" by simp
  then have a: "dropWhile isspace (s @ [c]) = []" by (simp only: dropWhile_eq_Nil_conv)
  from True have b: "dropWhile isspace s = []" by (simp only: dropWhile_eq_Nil_conv)
  show ?thesis unfolding strip_def a b by simp
next
  case False
  then obtain x where "x \<in> set s" and "\<not> isspace x" by blast
  then have "dropWhile isspace (s @ [c]) = dropWhile isspace s @ [c]"
    by (rule dropWhile_append1)
  then show ?thesis using assms by (simp add: strip_def)
qed

lemma strip_keeps_head:
  assumes "\<not> isspace c"
  shows "\<exists>t. strip (c # s) = c # t"
proof (cases "\<forall>x\<in>set (rev s). isspace x")
  case True
  then have "dropWhile isspace (rev s @ [c]) = dropWhile isspace [c]"
    by (intro dropWhile_append2) simp
  then show ?thesis using assms by (simp add: strip_def)
next
  case False
  then obtain x where "x \<in> set (rev s)" and "\<not> isspace x" by blast
  then have "dropWhile isspace (rev s @ [c]) = dropWhile isspace (rev s) @ [c]"
    by (rule dropWhile_append1)
  then show ?thesis using assms by (simp add: strip_def)
qed

lemma sublist_snoc:
  assumes "sublist xs (ys @ [c])" and "xs \<noteq> []" and "last xs \<noteq> c"
  shows "sublist xs ys"
proof -
  from assms(1) obtain ps ss where eq: "ys @ [c] = ps @ xs @ ss" by (auto simp: sublist_def)
  show ?thesis
  proof (cases ss rule: rev_cases)
    case Nil
    with eq assms(2) have "last (ys @ [c]) = last xs" by simp
    with assms(3) show ?thesis by simp
  next
    case (snoc ss' d)
    with eq have "ys @ [c] = (ps @ xs @ ss') @ [d]" by simp
    then have "ys = ps @ xs @ ss'" by (simp only: append1_eq_conv)
    then show ?thesis by (auto simp: sublist_def)
  qed
qed

lemma direct_route_from_to:
  assumes form: "lower E text = ascii ''from '' @ lx @ ascii '' to '' @ ly"
    and one: "occurrences (ascii ''to'') (lower E text) = 1"
    and nofrom: "\<not> sublist (ascii ''from'') lx"
    and nonempty: "strip lx \<noteq> []" "strip ly \<noteq> []"
  shows "direct_route E text = Some (strip lx, strip ly)"
proof -
  let ?A = "ascii ''from '' @ lx @ ascii '' ''" and ?B = "ascii '' '' @ ly"
  have L: "lower E text = ?A @ ascii ''to'' @ ?B" by (simp add: form)
  have sp: "isspace 32" by (simp add: isspace_def)
  have parts: "split (lower E text) (ascii ''to'') = [?A, ?B]"
    using split_from_one[of "ascii ''to''" ?A ?B "[]"] one unfolding L by (simp add: split_def)
  have "\<not> sublist (ascii ''from'') (lx @ [32])"
    using sublist_snoc[of "ascii ''from''" lx 32] nofrom by auto
  then have nf: "\<not> sublist (ascii ''from'') (32 # lx @ [32])"
    by (simp add: sublist_Cons_right)
  have "replace (ascii ''from'') [] ?A = replace (ascii ''from'') [] (32 # lx @ [32])"
    using replace_at_prefix[of "ascii ''from''" "[]" "32 # lx @ [32]"] by simp
  also have "\<dots> = 32 # lx @ [32]" using nf by (rule replace_no_occurrence)
  finally have "strip (replace (ascii ''from'') [] ?A) = strip (32 # lx @ [32])" by simp
  also have "\<dots> = strip lx"
    using strip_Cons_space[OF sp, of "lx @ [32]"] strip_snoc_space[OF sp, of lx] by simp
  finally have start: "strip (replace (ascii ''from'') [] ?A) = strip lx" .
  have end': "strip ?B = strip ly" using strip_Cons_space[OF sp, of ly] by simp
  have s1: "sublist (ascii ''from'') (lower E text)"
    unfolding form by (simp add: sublist_Cons_right)
  have s2: "sublist (ascii ''to'') (lower E text)" unfolding L by (rule sublist_appendI)
  show ?thesis
    using nonempty s1 s2 start end'
    by (simp add: direct_route_def parts Let_def del: ascii_Cons)
qed

lemma from_not_greeting:
  assumes "lower E text = ascii ''from '' @ rest"
  shows "strip (lower E text) \<notin> set greetings"
proof -
  have "\<not> isspace 102" by (simp add: isspace_def)
  from strip_keeps_head[OF this, of "ascii ''rom '' @ rest"] obtain t
    where "strip (lower E text) = 102 # t" using assms by auto
  then show ?thesis by (simp add: greetings_def)
qed

text \<open>
  C10, as the code has it. Take a message that reads \<^verbatim>\<open>from X to Y\<close> once it is in lower
  case, in a session that does not await the start location. If the lower-case message
  holds \<^verbatim>\<open>to\<close> at exactly one position, \<open>X\<close> and \<open>Y\<close> in lower case are not empty once
  stripped (which is the case when \<open>X\<close> and \<open>Y\<close> are not: no character becomes white space
  or nothing in lower case), and (the hypothesis the claim lacks) \<open>X\<close> in lower case does
  not hold \<^verbatim>\<open>from\<close>, then the two requests ask for \<open>X\<close> and for \<open>Y\<close>, each in lower case
  and stripped, and the reply that carries the link echoes the same two strings. Where
  a name does not geocode the hint is sent instead.
\<close>

theorem from_to_route_parsed:
  assumes "lower E text = ascii ''from '' @ lower E X @ ascii '' to '' @ lower E Y"
    and "occurrences (ascii ''to'') (lower E text) = 1"
    and "strip (lower E X) \<noteq> []" and "strip (lower E Y) \<noteq> []"
    and "\<not> sublist (ascii ''from'') (lower E X)"
    and "awaiting_start (get_session w (user_id u)) \<noteq> Some True"
  shows "handle_message E http u text w =
     w\<lparr>effects := effects w @
         [Reply_text (e_pin @ ascii '' Finding locations...'') None None,
          Http_get (geocode_url (strip (lower E X))),
          Http_get (geocode_url (strip (lower E Y))),
          (case (geocoded E (http 0) (strip (lower E X)),
                 geocoded E (http 1) (strip (lower E Y))) of
             (Some s, Some e) \<Rightarrow>
               route_ready (strip (lower E X)) (strip (lower E Y)) (route_url E s e (user_id u))
           | _ \<Rightarrow> Reply_text (ascii ''Try /start to plan a route!'') None None)]\<rparr>"
proof -
  have ng: "strip (lower E text) \<notin> set greetings"
    using assms(1) by (rule from_not_greeting)
  have r: "direct_route E text = Some (strip (lower E X), strip (lower E Y))"
    using assms(1,2,5,3,4) by (rule direct_route_from_to)
  show ?thesis
    unfolding handle_message_direct[OF ng assms(6)] r
    by (simp add: finding_def hint_def split: option.splits del: ascii_Cons)
qed

lemma direct_world_not_awaiting:
  "awaiting_start (get_session direct_world (user_id alice)) \<noteq> Some True"
  by (simp add: get_session_def direct_world_def alice_def empty_session_def)

theorem from_to_route_parsed_witness:
  "effects (handle_message example_env example_http alice
      (ascii ''From Marina Bay  to East Coast Park'') direct_world) =
     [Reply_text (e_pin @ ascii '' Finding locations...'') None None,
      Http_get (geocode_url (ascii ''marina bay'')),
      Http_get (geocode_url (ascii ''east coast park'')),
      route_ready (ascii ''marina bay'') (ascii ''east coast park'')
        (route_url example_env (ascii ''1.3048'', ascii ''103.8318'')
           (ascii ''1.2863'', ascii ''103.8273'') (ascii ''42''))]"
proof -
  let ?text = "ascii ''From Marina Bay  to East Coast Park''"
  have a: "lower example_env ?text =
             ascii ''from '' @ lower example_env (ascii ''Marina Bay '') @ ascii '' to '' @
             lower example_env (ascii ''East Coast Park'')"
    by code_simp
  have b: "occurrences (ascii ''to'') (lower example_env ?text) = 1"
    by code_simp
  have c: "strip (lower example_env (ascii ''Marina Bay '')) \<noteq> []"
    and d: "strip (lower example_env (ascii ''East Coast Park'')) \<noteq> []"
    by code_simp+
  have e: "\<not> sublist (ascii ''from'') (lower example_env (ascii ''Marina Bay ''))"
    by code_simp
  have x: "strip (lower example_env (ascii ''Marina Bay '')) = ascii ''marina bay''"
    and y: "strip (lower example_env (ascii ''East Coast Park'')) = ascii ''east coast park''"
    by code_simp+
  have eff: "effects direct_world = []"
    by (simp add: direct_world_def)
  note run = from_to_route_parsed[OF a b c d e direct_world_not_awaiting, of example_http,
      unfolded x y example_geocoded eff alice_id]
  show ?thesis
    unfolding run by (simp del: ascii_Cons)
qed

text \<open>
  The claim as worded fails for an origin that holds \<^verbatim>\<open>from\<close>:
  \<^verbatim>\<open>replace("from", "")\<close> removes every occurrence, so for
  \<^verbatim>\<open>from Fromagerie to Bedok\<close> the geocoder is asked for \<^verbatim>\<open>agerie\<close>, and the reply echoes
  that, although the message meets every condition of the claim.
\<close>

theorem from_inside_origin_counterexample:
  "lower example_env (ascii ''from Fromagerie to Bedok'') =
     ascii ''from '' @ lower example_env (ascii ''Fromagerie'') @ ascii '' to '' @
     lower example_env (ascii ''Bedok'')
   \<and> occurrences (ascii ''to'') (lower example_env (ascii ''from Fromagerie to Bedok'')) = 1
   \<and> strip (ascii ''Fromagerie'') \<noteq> [] \<and> strip (ascii ''Bedok'') \<noteq> []
   \<and> strip (lower example_env (ascii ''Fromagerie'')) = ascii ''fromagerie''
   \<and> strip (lower example_env (ascii ''Bedok'')) = ascii ''bedok''
   \<and> awaiting_start (get_session fresh (ascii ''42'')) \<noteq> Some True
   \<and> effects (handle_message example_env example_http alice (ascii ''from Fromagerie to Bedok'')
        fresh) =
       [finding, Http_get (geocode_url (ascii ''agerie'')), Http_get (geocode_url (ascii ''bedok'')),
        route_ready (ascii ''agerie'') (ascii ''bedok'')
          (ascii ''https://thermal-optimizers-coolride-engine.hf.space?start=1.3048,103.8318&end=1.2863,103.8273&tg=42'')]
   \<and> ascii ''agerie'' \<noteq> ascii ''fromagerie''"
  by code_simp

end
